theory Spec2Isabelle
  imports Complex_Main "HOL-Library.List_Lexorder" "HOL-Library.Char_ord" "HOL-Library.Multiset"
begin

chapter \<open>The programs\<close>

section \<open>Common Python notions\<close>

text \<open>
  The scripts are Python. Exceptions that leave a function are values of \<open>py_error\<close>;
  a function that may raise returns \<open>py_error + 'a\<close>, with \<open>Inl\<close> for the exception.
\<close>

datatype py_error = ValueError | TypeError | ZeroDivisionError | FileNotFoundError | FileExistsError
  | NotADirectoryError | PermissionError

text \<open>\<open>range(a, b)\<close> over Python integers: the integers \<open>a, a+1, ..., b-1\<close>.\<close>

definition py_range :: "int \<Rightarrow> int \<Rightarrow> int list" where
  "py_range a b = [a..b - 1]"

text \<open>\<open>str(n)\<close> for an integer, as the f-strings of the scripts print it.\<close>

definition digit_char :: "nat \<Rightarrow> char" where
  "digit_char d = ''0123456789'' ! d"

fun str_nat :: "nat \<Rightarrow> string" where
  "str_nat n = (if n < 10 then [digit_char n] else str_nat (n div 10) @ [digit_char (n mod 10)])"

definition str_int :: "int \<Rightarrow> string" where
  "str_int i = (if i < 0 then CHR ''-'' # str_nat (nat (- i)) else str_nat (nat i))"

text \<open>\<open>os.path.join(a, b)\<close> for a relative second component.\<close>

definition path_join :: "string \<Rightarrow> string \<Rightarrow> string" where
  "path_join a b = (if a = [] \<or> last a = CHR ''/'' then a @ b else a @ ''/'' @ b)"

section \<open>complete-world-map-generator.py: the full-coverage planner\<close>

text \<open>
  \<open>calculate_world_tiles\<close>: \<open>max_tile = 2 ** zoom_level\<close>, then two nested \<open>range(max_tile)\<close>
  loops appending \<open>(zoom_level, x, y)\<close>. For a negative zoom level \<open>2 ** zoom_level\<close> is a float
  and \<open>range\<close> raises \<open>TypeError\<close>.
\<close>

definition calculate_world_tiles :: "int \<Rightarrow> py_error + (int \<times> int \<times> int) list" where
  "calculate_world_tiles zoom_level =
     (if zoom_level < 0 then Inl TypeError
      else let max_tile = 2 ^ nat zoom_level
           in Inr (concat (map (\<lambda>x. map (\<lambda>y. (zoom_level, x, y)) (py_range 0 max_tile))
                               (py_range 0 max_tile))))"

section \<open>The world of the tile fetchers: local files and the network\<close>

text \<open>
  The fetchers read and write local files and call \<open>requests.get\<close>. The world holds the
  regular files (path to content) and the log of the URLs requested so far; a function
  performs no network call exactly when it leaves the log as it found it. What the server
  answers and which paths can be opened for writing are given by the environment: the
  answer may depend on everything requested before.
\<close>

datatype http_outcome = Response int string | RequestFailed

record env =
  server :: "string list \<Rightarrow> string \<Rightarrow> http_outcome"
  writable :: "string \<Rightarrow> bool"

record world =
  files :: "string \<rightharpoonup> string"
  requests :: "string list"

definition path_exists :: "world \<Rightarrow> string \<Rightarrow> bool" where
  "path_exists w p = (files w p \<noteq> None)"

text \<open>\<open>requests.get(url, timeout=30)\<close>: a response with its status code, or an exception.\<close>

definition requests_get :: "env \<Rightarrow> string \<Rightarrow> world \<Rightarrow> http_outcome \<times> world" where
  "requests_get e url w = (server e (requests w) url, w\<lparr>requests := requests w @ [url]\<rparr>)"

text \<open>\<open>with open(path, 'wb') as f: f.write(content)\<close>; \<open>None\<close> when \<open>open\<close> raises.\<close>

definition write_file :: "env \<Rightarrow> string \<Rightarrow> string \<Rightarrow> world \<Rightarrow> world option" where
  "write_file e p content w =
     (if writable e p then Some (w\<lparr>files := (files w)(p \<mapsto> content)\<rparr>) else None)"

text \<open>
  \<open>os.makedirs(path, exist_ok=True)\<close> in the world of the fetchers, where only regular
  files are recorded: it raises when the path is a regular file. Its other failures (a
  parent that is a regular file, an empty path) are outside this world.
\<close>

definition makedirs :: "string \<Rightarrow> world \<Rightarrow> py_error + world" where
  "makedirs p w = (if path_exists w p then Inl FileExistsError else Inr w)"

section \<open>complete-world-map-generator.py: \<open>download_tile\<close>\<close>

definition base_url :: string where
  "base_url = ''https://gibs.earthdata.nasa.gov/wmts/epsg4326/best''"

definition default_layer :: string where
  "default_layer = ''MODIS_Terra_CorrectedReflectance_TrueColor''"

definition default_resolution :: string where
  "default_resolution = ''250m''"

text \<open>\<open>layer or self.default_layer\<close>: \<open>None\<close> and the empty string are both falsy.\<close>

definition or_default :: "string option \<Rightarrow> string \<Rightarrow> string" where
  "or_default v d = (case v of None \<Rightarrow> d | Some s \<Rightarrow> if s = [] then d else s)"

definition get_terra_tile_url ::
  "string \<Rightarrow> int \<Rightarrow> int \<Rightarrow> int \<Rightarrow> string option \<Rightarrow> string option \<Rightarrow> string" where
  "get_terra_tile_url date z x y layer resolution =
     base_url @ ''/'' @ or_default layer default_layer @ ''/default/'' @ date @ ''/''
       @ or_default resolution default_resolution @ ''/'' @ str_int z @ ''/'' @ str_int y
       @ ''/'' @ str_int x @ ''.jpg''"

definition tile_filename :: "int \<Rightarrow> int \<Rightarrow> int \<Rightarrow> string" where
  "tile_filename z x y = ''tile_'' @ str_int z @ ''_'' @ str_int x @ ''_'' @ str_int y @ ''.jpg''"

text \<open>
  \<open>download_tile\<close> returns the pair \<open>(tile_path, True)\<close> or \<open>(None, False)\<close>; its whole body
  is inside \<open>try ... except Exception\<close>, so a failed request or a failed write is the
  second pair.
\<close>

definition download_tile ::
  "env \<Rightarrow> string \<Rightarrow> int \<Rightarrow> int \<Rightarrow> int \<Rightarrow> string \<Rightarrow> string option \<Rightarrow> world
     \<Rightarrow> (string option \<times> bool) \<times> world" where
  "download_tile e date z x y output_dir layer w =
     (let url = get_terra_tile_url date z x y layer None;
          tile_path = path_join output_dir (tile_filename z x y)
      in if path_exists w tile_path then ((Some tile_path, True), w)
         else (case requests_get e url w of
                 (Response code content, w') \<Rightarrow>
                   if code = 200
                   then (case write_file e tile_path content w' of
                           Some w'' \<Rightarrow> ((Some tile_path, True), w'')
                         | None \<Rightarrow> ((None, False), w'))
                   else ((None, False), w')
               | (RequestFailed, w') \<Rightarrow> ((None, False), w')))"

section \<open>direct-gibs-downloader.py\<close>

record layer_info =
  layer_id :: string
  resolution :: string
  format :: string

definition layers :: "(string \<times> layer_info) list" where
  "layers =
     [(''terra_true_color'',
         \<lparr>layer_id = ''MODIS_Terra_CorrectedReflectance_TrueColor'', resolution = ''250m'', format = ''jpg''\<rparr>),
      (''terra_false_color'',
         \<lparr>layer_id = ''MODIS_Terra_CorrectedReflectance_Bands367'', resolution = ''250m'', format = ''jpg''\<rparr>),
      (''terra_bands721'',
         \<lparr>layer_id = ''MODIS_Terra_CorrectedReflectance_Bands721'', resolution = ''250m'', format = ''jpg''\<rparr>),
      (''aqua_true_color'',
         \<lparr>layer_id = ''MODIS_Aqua_CorrectedReflectance_TrueColor'', resolution = ''250m'', format = ''jpg''\<rparr>),
      (''viirs_true_color'',
         \<lparr>layer_id = ''VIIRS_SNPP_CorrectedReflectance_TrueColor'', resolution = ''250m'', format = ''jpg''\<rparr>)]"

definition gibs_tile_url :: "layer_info \<Rightarrow> string \<Rightarrow> int \<Rightarrow> int \<Rightarrow> int \<Rightarrow> string" where
  "gibs_tile_url li date z x y =
     base_url @ ''/'' @ layer_id li @ ''/default/'' @ date @ ''/'' @ resolution li @ ''/''
       @ str_int z @ ''/'' @ str_int y @ ''/'' @ str_int x @ ''.'' @ format li"

text \<open>
  \<open>download_single_tile\<close>: \<open>ValueError\<close> for an unknown layer; otherwise the request is made
  at once, and the function returns \<open>True\<close> after writing a 200 response, \<open>False\<close> for every
  other status and for every exception of the request or the write.
\<close>

definition download_single_tile ::
  "env \<Rightarrow> string \<Rightarrow> string \<Rightarrow> int \<Rightarrow> int \<Rightarrow> int \<Rightarrow> string \<Rightarrow> world
     \<Rightarrow> (py_error + bool) \<times> world" where
  "download_single_tile e layer_key date z x y output_path w =
     (case map_of layers layer_key of
        None \<Rightarrow> (Inl ValueError, w)
      | Some li \<Rightarrow>
          (case requests_get e (gibs_tile_url li date z x y) w of
             (Response code content, w') \<Rightarrow>
               if code = 200
               then (case write_file e output_path content w' of
                       Some w'' \<Rightarrow> (Inr True, w'')
                     | None \<Rightarrow> (Inr False, w'))
               else (Inr False, w')
           | (RequestFailed, w') \<Rightarrow> (Inr False, w')))"

text \<open>The cells the two nested \<open>range\<close> loops of \<open>download_region_grid\<close> visit, in order.\<close>

definition region_cells :: "int \<Rightarrow> int \<Rightarrow> int \<Rightarrow> int \<Rightarrow> (int \<times> int) list" where
  "region_cells x_min x_max y_min y_max =
     concat (map (\<lambda>x. map (\<lambda>y. (x, y)) (py_range y_min (y_max + 1))) (py_range x_min (x_max + 1)))"

definition region_tile_filename :: "string \<Rightarrow> string \<Rightarrow> int \<Rightarrow> int \<Rightarrow> int \<Rightarrow> string \<Rightarrow> string" where
  "region_tile_filename layer_key date zoom_level x y fmt =
     layer_key @ ''_'' @ date @ ''_z'' @ str_int zoom_level @ ''_x'' @ str_int x @ ''_y''
       @ str_int y @ ''.'' @ fmt"

text \<open>The loop body and the loop: the counters \<open>(successful, failed)\<close> and the world are threaded.\<close>

fun region_loop ::
  "env \<Rightarrow> string \<Rightarrow> string \<Rightarrow> int \<Rightarrow> string \<Rightarrow> string \<Rightarrow> (int \<times> int) list \<Rightarrow> nat \<times> nat \<Rightarrow> world
     \<Rightarrow> (py_error + nat \<times> nat) \<times> world" where
  "region_loop e layer_key date zoom_level output_dir fmt [] (successful, failed) w =
     (Inr (successful, failed), w)"
| "region_loop e layer_key date zoom_level output_dir fmt ((x, y) # cells) (successful, failed) w =
     (let tile_path = path_join output_dir (region_tile_filename layer_key date zoom_level x y fmt)
      in case download_single_tile e layer_key date zoom_level x y tile_path w of
           (Inl err, w') \<Rightarrow> (Inl err, w')
         | (Inr ok, w') \<Rightarrow>
             if ok
             then region_loop e layer_key date zoom_level output_dir fmt cells (successful + 1, failed) w'
             else region_loop e layer_key date zoom_level output_dir fmt cells (successful, failed + 1) w')"

definition download_region_grid ::
  "env \<Rightarrow> string \<Rightarrow> string \<Rightarrow> int \<Rightarrow> int \<Rightarrow> int \<Rightarrow> int \<Rightarrow> int \<Rightarrow> string \<Rightarrow> world
     \<Rightarrow> (py_error + nat \<times> nat) \<times> world" where
  "download_region_grid e layer_key date zoom_level x_min x_max y_min y_max output_dir w =
     (case map_of layers layer_key of
        None \<Rightarrow> (Inl ValueError, w)
      | Some li \<Rightarrow>
          (case makedirs output_dir w of
             Inl err \<Rightarrow> (Inl err, w)
           | Inr w1 \<Rightarrow>
               region_loop e layer_key date zoom_level output_dir (format li)
                 (region_cells x_min x_max y_min y_max) (0, 0) w1))"

text \<open>
  \<open>download_global_coverage\<close>: the region \<open>0 .. 2 ** zoom_level - 1\<close> in both axes. For a
  negative zoom level the bounds are floats, and \<open>range\<close> raises \<open>TypeError\<close> once the layer
  check and \<open>os.makedirs\<close> are past.
\<close>

definition download_global_coverage ::
  "env \<Rightarrow> string \<Rightarrow> string \<Rightarrow> int \<Rightarrow> string \<Rightarrow> world \<Rightarrow> (py_error + nat \<times> nat) \<times> world" where
  "download_global_coverage e layer_key date zoom_level output_dir w =
     (if zoom_level < 0
      then (case map_of layers layer_key of
              None \<Rightarrow> (Inl ValueError, w)
            | Some li \<Rightarrow> (case makedirs output_dir w of
                           Inl err \<Rightarrow> (Inl err, w)
                         | Inr w1 \<Rightarrow> (Inl TypeError, w1)))
      else let max_tile = 2 ^ nat zoom_level
           in download_region_grid e layer_key date zoom_level 0 (max_tile - 1) 0 (max_tile - 1)
                output_dir w)"

section \<open>Concrete worlds for the fetchers\<close>

definition env_404 :: env where
  "env_404 = \<lparr>server = (\<lambda>log url. Response 404 ''''), writable = (\<lambda>p. True)\<rparr>"

definition env_alternating :: env where
  "env_alternating =
     \<lparr>server = (\<lambda>log url. if even (length log) then Response 200 ''img'' else Response 404 ''''),
      writable = (\<lambda>p. True)\<rparr>"

definition world_empty :: world where
  "world_empty = \<lparr>files = Map.empty, requests = []\<rparr>"

definition world_cached :: world where
  "world_cached = \<lparr>files = [''out/tile_1_0_0.jpg'' \<mapsto> ''img''], requests = []\<rparr>"

section \<open>The bounding-box planners\<close>

text \<open>
  \<open>_get_tile_coordinates\<close> of ingest_worker.py. Its inner \<open>deg2num\<close> computes tile indices in
  floating point (\<open>math.tan\<close>, \<open>math.asinh\<close>); it is a parameter here, so that what is proved
  holds for whatever indices it returns. The two calls, the nested \<open>range\<close> loops and the
  final slice \<open>coordinates[:25]\<close> are the source's.
\<close>

record bbox =
  north :: real
  south :: real
  east :: real
  west :: real

definition get_tile_coordinates ::
  "(real \<Rightarrow> real \<Rightarrow> int \<Rightarrow> int \<times> int) \<Rightarrow> bbox \<Rightarrow> int \<Rightarrow> (int \<times> int) list" where
  "get_tile_coordinates deg2num bb zoom =
     (let (min_x, max_y) = deg2num (north bb) (west bb) zoom;
          (max_x, min_y) = deg2num (south bb) (east bb) zoom;
          coordinates = concat (map (\<lambda>x. map (\<lambda>y. (x, y)) (py_range min_y (max_y + 1)))
                                    (py_range min_x (max_x + 1)))
      in take 25 coordinates)"

text \<open>
  \<open>get_tiles_for_bbox\<close> of earthdata-image-exporter.py, on \<open>bbox = [min_lon, min_lat, max_lon,
  max_lat]\<close>. \<open>int(...)\<close> truncates towards zero. The arithmetic is over the rationals: where
  every intermediate value is a small integer, as for the whole-globe box, Python's floats
  compute the same indices. The zoom level is the caller's, \<open>calculate_optimal_zoom\<close>'s result
  in \<open>0 .. 5\<close>.
\<close>

definition py_trunc :: "rat \<Rightarrow> int" where
  "py_trunc q = (if q < 0 then \<lceil>q\<rceil> else \<lfloor>q\<rfloor>)"

definition get_tiles_for_bbox :: "rat \<times> rat \<times> rat \<times> rat \<Rightarrow> nat \<Rightarrow> (int \<times> int) list" where
  "get_tiles_for_bbox bb zoom_level =
     (case bb of (b0, b1, b2, b3) \<Rightarrow>
        let max_tile = 2 ^ zoom_level;
            x_min = max 0 (py_trunc ((b0 + 180) / 360 * of_int max_tile));
            x_max = min (max_tile - 1) (py_trunc ((b2 + 180) / 360 * of_int max_tile));
            y_min = max 0 (py_trunc ((90 - b3) / 180 * of_int max_tile));
            y_max = min (max_tile - 1) (py_trunc ((90 - b1) / 180 * of_int max_tile))
        in concat (map (\<lambda>x. map (\<lambda>y. (x, y)) (py_range y_min (y_max + 1)))
                       (py_range x_min (x_max + 1))))"

section \<open>batch-world-map-generator.py\<close>

subsection \<open>Python string and list helpers\<close>

definition endswith :: "string \<Rightarrow> string \<Rightarrow> bool" where
  "endswith s suffix = (length suffix \<le> length s \<and> drop (length s - length suffix) s = suffix)"

text \<open>\<open>s.split(c)\<close> for a one-character separator: \<open>k\<close> separators give \<open>k + 1\<close> parts.\<close>

fun split_on :: "char \<Rightarrow> string \<Rightarrow> string list" where
  "split_on c [] = [[]]"
| "split_on c (x # xs) =
     (if x = c then [] # split_on c xs
      else (case split_on c xs of
              [] \<Rightarrow> [[x]]
            | p # ps \<Rightarrow> (x # p) # ps))"

text \<open>\<open>xs[:n]\<close>: a negative \<open>n\<close> counts from the end.\<close>

definition py_slice_to :: "int \<Rightarrow> 'a list \<Rightarrow> 'a list" where
  "py_slice_to n xs = (if n < 0 then take (length xs - nat (- n)) xs else take (nat n) xs)"

subsection \<open>\<open>find_downloaded_dates\<close>\<close>

text \<open>
  A directory as \<open>os.walk\<close> sees it: its file names and its subdirectories. The scan visits
  every file name of the tree. \<open>datetime.strptime(part, '%Y-%m-%d')\<close> belongs to the standard
  library; whether it accepts a string is the parameter \<open>strptime_ok\<close>.
\<close>

datatype dirtree = Dir "string list" "dirtree list"

fun walk_files :: "dirtree \<Rightarrow> string list" where
  "walk_files (Dir fs subs) = fs @ concat (map walk_files subs)"

definition scan_parts :: "(string \<Rightarrow> bool) \<Rightarrow> string list \<Rightarrow> string set \<Rightarrow> string set" where
  "scan_parts strptime_ok parts dates =
     fold (\<lambda>part dates.
             if length part = 10 \<and> count_list part (CHR ''-'') = 2
             then (if strptime_ok part then insert part dates else dates)
             else dates)
          parts dates"

definition scan_files :: "(string \<Rightarrow> bool) \<Rightarrow> string list \<Rightarrow> string set \<Rightarrow> string set" where
  "scan_files strptime_ok fs dates =
     fold (\<lambda>file dates.
             if endswith file ''.jpg'' \<or> endswith file ''.jpeg''
             then scan_parts strptime_ok (split_on (CHR ''_'') file) dates
             else dates)
          fs dates"

text \<open>The argument is \<open>None\<close> when \<open>os.path.exists(terra_downloads_dir)\<close> is false.\<close>

definition find_downloaded_dates :: "(string \<Rightarrow> bool) \<Rightarrow> dirtree option \<Rightarrow> string list" where
  "find_downloaded_dates strptime_ok tree =
     (case tree of
        None \<Rightarrow> []
      | Some t \<Rightarrow> sorted_list_of_set (scan_files strptime_ok (walk_files t) {}))"

subsection \<open>The batch run\<close>

text \<open>
  The world of the batch script: the directory tree found at a path (none when the path
  does not exist), the set of paths of existing files, and the log of the command lines
  handed to \<open>subprocess.run\<close>. A date is generated afresh exactly when a command line for it
  is added to the log. What a subprocess returns and which files exist after it are the
  environment's, and so is the exception that \<open>os.makedirs(path, exist_ok=True)\<close> raises, if
  it raises one (the path or one of its parents is a regular file, the path is empty, the
  parent is not writable).
\<close>

datatype run_outcome = Exited int | TimeoutExpired | OtherException

record batch_world =
  tree_at :: "string \<Rightarrow> dirtree option"
  existing :: "string set"
  runs :: "string list list"

record batch_env =
  strptime :: "string \<Rightarrow> bool"
  sys_executable :: string
  script_dir :: string
  process :: "string list \<Rightarrow> batch_world \<Rightarrow> run_outcome \<times> string set"
  makedirs_error :: "string \<Rightarrow> batch_world \<Rightarrow> py_error option"

record args =
  arg_downloads :: string
  arg_output :: string
  arg_zoom :: int
  arg_limit :: "int option"
  arg_start_date :: "string option"
  arg_end_date :: "string option"

definition subprocess_run :: "batch_env \<Rightarrow> string list \<Rightarrow> batch_world \<Rightarrow> run_outcome \<times> batch_world" where
  "subprocess_run e cmd w =
     (case process e cmd w of
        (outcome, fs) \<Rightarrow> (outcome, w\<lparr>existing := fs, runs := runs w @ [cmd]\<rparr>))"

definition generate_world_map_for_date ::
  "batch_env \<Rightarrow> string \<Rightarrow> string \<Rightarrow> int \<Rightarrow> batch_world \<Rightarrow> bool \<times> batch_world" where
  "generate_world_map_for_date e date output_dir zoom_level w =
     (let script_path = path_join (script_dir e) ''complete-world-map-generator.py'';
          cmd = [sys_executable e, script_path, ''--date'', date, ''--output'', output_dir,
                 ''--zoom'', str_int zoom_level]
      in case subprocess_run e cmd w of
           (Exited returncode, w') \<Rightarrow> (returncode = 0, w')
         | (TimeoutExpired, w') \<Rightarrow> (False, w')
         | (OtherException, w') \<Rightarrow> (False, w'))"

definition expected_path :: "args \<Rightarrow> string \<Rightarrow> string" where
  "expected_path a date =
     path_join (arg_output a) (''terra_complete_world_map_'' @ date @ ''_z'' @ str_int (arg_zoom a) @ ''.jpg'')"

text \<open>The body of the loop of \<open>main\<close>, on the counters \<open>(successful, failed)\<close> and the world.\<close>

definition process_date ::
  "batch_env \<Rightarrow> args \<Rightarrow> string \<Rightarrow> nat \<times> nat \<times> batch_world \<Rightarrow> nat \<times> nat \<times> batch_world" where
  "process_date e a date st =
     (case st of (successful, failed, w) \<Rightarrow>
        if expected_path a date \<in> existing w then (successful + 1, failed, w)
        else (case generate_world_map_for_date e date (arg_output a) (arg_zoom a) w of
                (True, w') \<Rightarrow> (successful + 1, failed, w')
              | (False, w') \<Rightarrow> (successful, failed + 1, w')))"

text \<open>
  \<open>if args.start_date:\<close>, \<open>if args.end_date:\<close> and \<open>if args.limit:\<close> are truth tests: an empty
  string and a limit of 0 leave the list as it is.
\<close>

definition dates_to_process :: "args \<Rightarrow> string list \<Rightarrow> string list" where
  "dates_to_process a available_dates =
     (let ds1 = (case arg_start_date a of
                   None \<Rightarrow> available_dates
                 | Some s \<Rightarrow> if s = [] then available_dates else filter (\<lambda>d. d \<ge> s) available_dates);
          ds2 = (case arg_end_date a of
                   None \<Rightarrow> ds1
                 | Some s \<Rightarrow> if s = [] then ds1 else filter (\<lambda>d. d \<le> s) ds1)
      in case arg_limit a of
           None \<Rightarrow> ds2
         | Some n \<Rightarrow> if n = 0 then ds2 else py_slice_to n ds2)"

text \<open>The expression printed as the success rate: a true division, then times 100.\<close>

definition success_rate :: "nat \<Rightarrow> nat \<Rightarrow> py_error + rat" where
  "success_rate successful attempted =
     (if attempted = 0 then Inl ZeroDivisionError
      else Inr (of_nat successful / of_nat attempted * 100))"

text \<open>
  What a run of \<open>main\<close> that reaches its end prints there: the two counters and the
  success rate. \<open>main\<close> returns 1 at once when the scan finds no date; otherwise it filters
  the dates, creates the output directory (an exception of \<open>os.makedirs\<close> ends the run),
  runs the loop, prints the report and returns 0 when nothing failed, 1 otherwise. The
  result keeps the exit code and, when it was printed, the report.
\<close>

record report =
  successful_maps :: nat
  failed_maps :: nat
  rate :: rat

definition main ::
  "batch_env \<Rightarrow> args \<Rightarrow> batch_world \<Rightarrow> (py_error + int \<times> report option) \<times> batch_world" where
  "main e a w =
     (let available_dates = find_downloaded_dates (strptime e) (tree_at w (arg_downloads a))
      in if available_dates = [] then (Inr (1, None), w)
         else (let ds = dates_to_process a available_dates
               in case makedirs_error e (arg_output a) w of
                    Some err \<Rightarrow> (Inl err, w)
                  | None \<Rightarrow>
                      (case fold (process_date e a) ds (0, 0, w) of
                         (successful, failed, w') \<Rightarrow>
                           (case success_rate successful (length ds) of
                              Inl err \<Rightarrow> (Inl err, w')
                            | Inr r \<Rightarrow>
                                (Inr (if failed = 0 then 0 else 1,
                                      Some \<lparr>successful_maps = successful, failed_maps = failed,
                                            rate = r\<rparr>),
                                 w')))))"

subsection \<open>Concrete inputs of the batch script\<close>

definition sample_tree :: dirtree where
  "sample_tree =
     Dir [''readme.txt'']
         [Dir [''terra_2023-01-02_tile.jpg'', ''terra_2023-01-01_tile.jpeg'',
               ''aqua_2023-01-02_tile.jpg'', ''terra_2023-99-99_tile.jpg'',
               ''terra_2023-01-03_tile.png''] []]"

text \<open>A stand-in for \<open>strptime\<close> that agrees with it on the strings of \<open>sample_tree\<close>.\<close>

definition sample_strptime :: "string \<Rightarrow> bool" where
  "sample_strptime s = (s \<in> set [''2023-01-01'', ''2023-01-02'', ''2023-01-03''])"

definition sample_env :: batch_env where
  "sample_env =
     \<lparr>strptime = sample_strptime, sys_executable = ''python3'', script_dir = ''scripts'',
      process = (\<lambda>cmd w. (Exited 1, existing w)),
      makedirs_error = (\<lambda>p w. None)\<rparr>"

text \<open>One downloaded date, whose world map is already in the output directory.\<close>

definition sample_world :: batch_world where
  "sample_world =
     \<lparr>tree_at = (\<lambda>p. if p = ''downloads'' then Some (Dir [''terra_2023-01-01_tile.jpg''] []) else None),
      existing = {''maps/terra_complete_world_map_2023-01-01_z2.jpg''},
      runs = []\<rparr>"

definition sample_args :: args where
  "sample_args =
     \<lparr>arg_downloads = ''downloads'', arg_output = ''maps'', arg_zoom = 2, arg_limit = None,
      arg_start_date = None, arg_end_date = None\<rparr>"

section \<open>animation-video-generator.py\<close>

text \<open>
  The world of the encoder script: the directories (path to entry names), the regular
  files, and the trace of what the script did to them: every \<open>os.listdir\<close>, every
  \<open>subprocess.run\<close> and every \<open>os.remove\<close>, in order. Whether an ffmpeg is found, whether
  the one found can be started, how a run of it exits and which files exist after it are
  the environment's.
\<close>

datatype event = Listed string | Ran "string list" | Removed string

record enc_world =
  enc_dirs :: "string \<rightharpoonup> string list"
  enc_files :: "string set"
  enc_trace :: "event list"

record enc_env =
  ffmpeg_present :: bool
  ffmpeg_executable :: bool
  ffmpeg :: "string list \<Rightarrow> enc_world \<Rightarrow> int \<times> string set"

text \<open>
  \<open>subprocess.run(cmd, capture_output=True, check=True)\<close> has four outcomes. It raises
  \<open>FileNotFoundError\<close> when no ffmpeg is found (\<open>ProgramNotFound\<close>). It raises
  \<open>PermissionError\<close>, or another \<open>OSError\<close>, when the ffmpeg found cannot be started: no
  execute permission, not a valid program (\<open>LaunchFailed\<close>). It raises \<open>CalledProcessError\<close>
  when the program ran and exited with a non-zero status. Otherwise it completes.
\<close>

datatype proc_result = Completed | CalledProcessError | ProgramNotFound | LaunchFailed

definition subprocess_check ::
  "enc_env \<Rightarrow> string list \<Rightarrow> enc_world \<Rightarrow> proc_result \<times> enc_world" where
  "subprocess_check e cmd w =
     (if \<not> ffmpeg_present e then (ProgramNotFound, w\<lparr>enc_trace := enc_trace w @ [Ran cmd]\<rparr>)
      else if \<not> ffmpeg_executable e
      then (LaunchFailed, w\<lparr>enc_trace := enc_trace w @ [Ran cmd]\<rparr>)
      else (case ffmpeg e cmd w of
              (status, fs) \<Rightarrow>
                (if status = 0 then Completed else CalledProcessError,
                 w\<lparr>enc_files := fs, enc_trace := enc_trace w @ [Ran cmd]\<rparr>)))"

definition os_path_exists :: "enc_world \<Rightarrow> string \<Rightarrow> bool" where
  "os_path_exists w p = (enc_dirs w p \<noteq> None \<or> p \<in> enc_files w)"

text \<open>\<open>os.listdir(path)\<close>; it raises when the path is not a directory.\<close>

definition os_listdir :: "string \<Rightarrow> enc_world \<Rightarrow> (py_error + string list) \<times> enc_world" where
  "os_listdir p w =
     (case enc_dirs w p of
        None \<Rightarrow> (Inl (if p \<in> enc_files w then NotADirectoryError else FileNotFoundError), w)
      | Some names \<Rightarrow> (Inr names, w\<lparr>enc_trace := enc_trace w @ [Listed p]\<rparr>))"

definition os_remove :: "string \<Rightarrow> enc_world \<Rightarrow> enc_world" where
  "os_remove p w = w\<lparr>enc_files := enc_files w - {p}, enc_trace := enc_trace w @ [Removed p]\<rparr>"

text \<open>
  Both functions return \<open>True\<close> or \<open>False\<close>; before \<open>False\<close> they print which step failed. The
  outcome keeps that message.
\<close>

datatype message = DirectoryMissing | FfmpegNotInstalled | NoFrameFiles | FfmpegError

datatype outcome = ReturnTrue | ReturnFalse message

definition frame_files_of :: "string list \<Rightarrow> string list" where
  "frame_files_of names = sort (filter (\<lambda>f. endswith f ''.jpg'') names)"

definition quality_settings :: "(string \<times> string list) list" where
  "quality_settings =
     [(''low'', [''-crf'', ''28'']), (''medium'', [''-crf'', ''23'']),
      (''high'', [''-crf'', ''18'']), (''lossless'', [''-crf'', ''0''])]"

definition quality_flags :: "string \<Rightarrow> string list" where
  "quality_flags quality =
     (case map_of quality_settings quality of
        Some flags \<Rightarrow> flags
      | None \<Rightarrow> [''-crf'', ''23''])"

definition input_pattern :: "string \<Rightarrow> string" where
  "input_pattern frames_dir = path_join frames_dir ''frame_%03d_*.jpg''"

definition video_cmd :: "string \<Rightarrow> string \<Rightarrow> string \<Rightarrow> string \<Rightarrow> string list" where
  "video_cmd frames_dir output_path fps quality =
     [''ffmpeg'', ''-y'', ''-framerate'', fps, ''-pattern_type'', ''glob'',
      ''-i'', input_pattern frames_dir, ''-c:v'', ''libx264'', ''-pix_fmt'', ''yuv420p'']
     @ quality_flags quality @ [''-movflags'', ''+faststart'', output_path]"

text \<open>
  \<open>fps\<close> and \<open>width\<close> are taken as the texts \<open>str(fps)\<close> and \<open>str(width)\<close>. The probe
  \<open>ffmpeg -version\<close> of \<open>create_video_from_frames\<close> is inside
  \<open>except (subprocess.CalledProcessError, FileNotFoundError)\<close>: those two print the
  missing-tool message and return \<open>False\<close>; a \<open>PermissionError\<close> of the probe is not caught
  and leaves the function. The encoding run is inside \<open>except subprocess.CalledProcessError\<close>
  only.
\<close>

definition create_video_from_frames ::
  "enc_env \<Rightarrow> string \<Rightarrow> string \<Rightarrow> string \<Rightarrow> string \<Rightarrow> enc_world
     \<Rightarrow> (py_error + outcome) \<times> enc_world" where
  "create_video_from_frames e frames_dir output_path fps quality w =
     (if \<not> os_path_exists w frames_dir then (Inr (ReturnFalse DirectoryMissing), w)
      else (case subprocess_check e [''ffmpeg'', ''-version''] w of
              (CalledProcessError, w1) \<Rightarrow> (Inr (ReturnFalse FfmpegNotInstalled), w1)
            | (ProgramNotFound, w1) \<Rightarrow> (Inr (ReturnFalse FfmpegNotInstalled), w1)
            | (LaunchFailed, w1) \<Rightarrow> (Inl PermissionError, w1)
            | (Completed, w1) \<Rightarrow>
                (case os_listdir frames_dir w1 of
                   (Inl err, w2) \<Rightarrow> (Inl err, w2)
                 | (Inr names, w2) \<Rightarrow>
                     if frame_files_of names = [] then (Inr (ReturnFalse NoFrameFiles), w2)
                     else (case subprocess_check e (video_cmd frames_dir output_path fps quality) w2 of
                             (Completed, w3) \<Rightarrow> (Inr ReturnTrue, w3)
                           | (CalledProcessError, w3) \<Rightarrow> (Inr (ReturnFalse FfmpegError), w3)
                           | (ProgramNotFound, w3) \<Rightarrow> (Inl FileNotFoundError, w3)
                           | (LaunchFailed, w3) \<Rightarrow> (Inl PermissionError, w3)))))"

definition palette_cmd :: "string \<Rightarrow> string \<Rightarrow> string \<Rightarrow> string list" where
  "palette_cmd frames_dir fps width =
     [''ffmpeg'', ''-y'', ''-framerate'', fps, ''-pattern_type'', ''glob'',
      ''-i'', input_pattern frames_dir,
      ''-vf'', ''scale='' @ width @ '':-1:flags=lanczos,palettegen=reserve_transparent=0'',
      ''-y'', ''palette.png'']"

definition gif_cmd :: "string \<Rightarrow> string \<Rightarrow> string \<Rightarrow> string \<Rightarrow> string list" where
  "gif_cmd frames_dir output_path fps width =
     [''ffmpeg'', ''-y'', ''-framerate'', fps, ''-pattern_type'', ''glob'',
      ''-i'', input_pattern frames_dir, ''-i'', ''palette.png'',
      ''-filter_complex'', ''scale='' @ width @ '':-1:flags=lanczos[x];[x][1:v]paletteuse'',
      output_path]"

text \<open>
  \<open>create_gif_from_frames\<close>: the \<open>try\<close> block holds both ffmpeg runs and the removal of the
  palette; its \<open>except\<close> clause catches \<open>CalledProcessError\<close> only, so both exceptions of a
  failed start leave the function.
\<close>

definition create_gif_from_frames ::
  "enc_env \<Rightarrow> string \<Rightarrow> string \<Rightarrow> string \<Rightarrow> string \<Rightarrow> enc_world
     \<Rightarrow> (py_error + outcome) \<times> enc_world" where
  "create_gif_from_frames e frames_dir output_path fps width w =
     (if \<not> os_path_exists w frames_dir then (Inr (ReturnFalse DirectoryMissing), w)
      else (case os_listdir frames_dir w of
              (Inl err, w1) \<Rightarrow> (Inl err, w1)
            | (Inr names, w1) \<Rightarrow>
                if frame_files_of names = [] then (Inr (ReturnFalse NoFrameFiles), w1)
                else (case subprocess_check e (palette_cmd frames_dir fps width) w1 of
                        (ProgramNotFound, w2) \<Rightarrow> (Inl FileNotFoundError, w2)
                      | (LaunchFailed, w2) \<Rightarrow> (Inl PermissionError, w2)
                      | (CalledProcessError, w2) \<Rightarrow> (Inr (ReturnFalse FfmpegError), w2)
                      | (Completed, w2) \<Rightarrow>
                          (case subprocess_check e (gif_cmd frames_dir output_path fps width) w2 of
                             (ProgramNotFound, w3) \<Rightarrow> (Inl FileNotFoundError, w3)
                           | (LaunchFailed, w3) \<Rightarrow> (Inl PermissionError, w3)
                           | (CalledProcessError, w3) \<Rightarrow> (Inr (ReturnFalse FfmpegError), w3)
                           | (Completed, w3) \<Rightarrow>
                               (Inr ReturnTrue,
                                if os_path_exists w3 ''palette.png''
                                then os_remove ''palette.png'' w3 else w3)))))"

subsection \<open>Concrete inputs of the encoder script\<close>

definition frames_world :: enc_world where
  "frames_world =
     \<lparr>enc_dirs = [''frames'' \<mapsto> [''frame_001_2023-01-01.jpg'', ''frame_002_2023-01-02.jpg'']],
      enc_files = {''frames/frame_001_2023-01-01.jpg'', ''frames/frame_002_2023-01-02.jpg''},
      enc_trace = []\<rparr>"

definition bare_world :: enc_world where
  "bare_world = \<lparr>enc_dirs = Map.empty, enc_files = {}, enc_trace = []\<rparr>"

text \<open>No ffmpeg on the machine.\<close>

definition env_no_ffmpeg :: enc_env where
  "env_no_ffmpeg =
     \<lparr>ffmpeg_present = False, ffmpeg_executable = False,
      ffmpeg = (\<lambda>cmd w. (127, enc_files w))\<rparr>"

text \<open>An ffmpeg on the path that cannot be started: it has no execute permission.\<close>

definition env_not_executable :: enc_env where
  "env_not_executable =
     \<lparr>ffmpeg_present = True, ffmpeg_executable = False,
      ffmpeg = (\<lambda>cmd w. (126, enc_files w))\<rparr>"

text \<open>
  An ffmpeg that writes the palette (a command line ending in \<open>palette.png\<close>) and fails on
  every other command line.
\<close>

definition env_second_pass_fails :: enc_env where
  "env_second_pass_fails =
     \<lparr>ffmpeg_present = True, ffmpeg_executable = True,
      ffmpeg = (\<lambda>cmd w. if last cmd = ''palette.png''
                          then (0, insert ''palette.png'' (enc_files w))
                          else (1, enc_files w))\<rparr>"

section \<open>The compositors\<close>

text \<open>
  Images as PIL has them for this purpose: a width, a height and the pixels in row-major
  order. \<open>Image.new\<close> fills the canvas with one colour; \<open>paste\<close> copies a tile onto the canvas
  with its top-left corner at the given offset, clipped to the canvas; pixels outside the
  tile's rectangle stay as they were.
\<close>

type_synonym pixel = "nat \<times> nat \<times> nat"

record image =
  img_w :: nat
  img_h :: nat
  img_px :: "pixel list"

definition image_new :: "nat \<Rightarrow> nat \<Rightarrow> pixel \<Rightarrow> image" where
  "image_new w h colour = \<lparr>img_w = w, img_h = h, img_px = replicate (w * h) colour\<rparr>"

definition getpixel :: "image \<Rightarrow> nat \<Rightarrow> nat \<Rightarrow> pixel" where
  "getpixel im c r = img_px im ! (r * img_w im + c)"

text \<open>Whether the tile pasted at \<open>pos\<close> covers column \<open>c\<close>, row \<open>r\<close> of the canvas.\<close>

definition covers :: "image \<Rightarrow> int \<times> int \<Rightarrow> int \<Rightarrow> int \<Rightarrow> bool" where
  "covers tile pos c r =
     (fst pos \<le> c \<and> c < fst pos + int (img_w tile) \<and> snd pos \<le> r \<and> r < snd pos + int (img_h tile))"

definition paste :: "image \<Rightarrow> image \<Rightarrow> int \<times> int \<Rightarrow> image" where
  "paste im tile pos =
     im\<lparr>img_px :=
          map (\<lambda>i. let c = int (i mod img_w im); r = int (i div img_w im)
                    in if covers tile pos c r
                       then getpixel tile (nat (c - fst pos)) (nat (r - snd pos))
                       else img_px im ! i)
              [0..<length (img_px im)]\<rparr>"

definition tile_size :: nat where
  "tile_size = 256"

subsection \<open>\<open>stitch_world_map\<close> of complete-world-map-generator.py\<close>

text \<open>
  The loop body: \<open>Image.open(tile_path)\<close> (here \<open>open_image\<close>, \<open>None\<close> when it raises, which the
  loop's \<open>except\<close> turns into \<open>continue\<close>), then \<open>paste\<close> at \<open>(x * tile_size, y * tile_size)\<close> and
  one more tile placed.
\<close>

definition place_world_tile ::
  "(string \<Rightarrow> image option) \<Rightarrow> int \<times> int \<times> int \<times> string \<Rightarrow> image \<times> nat \<Rightarrow> image \<times> nat" where
  "place_world_tile open_image t st =
     (case t of (z, x, y, tile_path) \<Rightarrow>
        (case open_image tile_path of
           None \<Rightarrow> st
         | Some tile_img \<Rightarrow>
             (paste (fst st) tile_img (x * int tile_size, y * int tile_size), snd st + 1)))"

text \<open>
  The result is the canvas saved at \<open>output_path\<close> (the function returns \<open>True\<close>), or \<open>None\<close>
  when there is no tile (it returns \<open>False\<close>). The title and grid overlay drawn after the
  loop is a parameter: it gets the canvas, the date, the zoom level and the number of
  tiles placed. The display variant saved beside a large map is a resize of this canvas.
\<close>

definition stitch_world_map ::
  "(string \<Rightarrow> image option) \<Rightarrow> (image \<Rightarrow> string \<Rightarrow> nat \<Rightarrow> nat \<Rightarrow> image)
     \<Rightarrow> (int \<times> int \<times> int \<times> string) list \<Rightarrow> nat \<Rightarrow> string \<Rightarrow> image option" where
  "stitch_world_map open_image add_overlay successful_tiles zoom_level date =
     (if successful_tiles = [] then None
      else let max_tile = 2 ^ zoom_level;
               world_width = max_tile * tile_size;
               world_height = max_tile * tile_size;
               world_map = image_new world_width world_height (0, 0, 50);
               st = fold (place_world_tile open_image) successful_tiles (world_map, 0)
           in Some (add_overlay (fst st) date zoom_level (snd st)))"

subsection \<open>\<open>_compose_frame\<close> of ingest_worker.py\<close>

definition place_frame_tile ::
  "(string \<Rightarrow> image option) \<Rightarrow> int \<Rightarrow> int \<Rightarrow> int \<times> int \<times> string \<Rightarrow> image \<Rightarrow> image" where
  "place_frame_tile decode min_x min_y t frame =
     (case t of (x, y, tile_data) \<Rightarrow>
        (case decode tile_data of
           None \<Rightarrow> frame
         | Some tile_img \<Rightarrow>
             paste frame tile_img ((x - min_x) * int tile_size, (y - min_y) * int tile_size)))"

text \<open>
  The result is the frame saved as a PNG, or \<open>None\<close> for an empty tile list; the date, the
  bounding box and the zoom level only name the file.
\<close>

definition compose_frame :: "(string \<Rightarrow> image option) \<Rightarrow> (int \<times> int \<times> string) list \<Rightarrow> image option" where
  "compose_frame decode tiles =
     (if tiles = [] then None
      else let min_x = Min (set (map fst tiles));
               max_x = Max (set (map fst tiles));
               min_y = Min (set (map (\<lambda>t. fst (snd t)) tiles));
               max_y = Max (set (map (\<lambda>t. fst (snd t)) tiles));
               width = (max_x - min_x + 1) * int tile_size;
               height = (max_y - min_y + 1) * int tile_size;
               frame = image_new (nat width) (nat height) (0, 0, 0)
           in Some (fold (place_frame_tile decode min_x min_y) tiles frame))"

subsection \<open>\<open>stitch_tiles\<close> of earthdata-image-exporter.py\<close>

text \<open>
  The offset of a tile comes from its index \<open>i\<close> in the list, not from \<open>tile_x\<close> and \<open>tile_y\<close>.
  The final \<open>resize((width, height))\<close> is to the size the canvas already has, which PIL
  answers with a copy.
\<close>

definition place_indexed_tile ::
  "nat \<Rightarrow> nat \<Rightarrow> nat \<times> (int \<times> int \<times> image) \<Rightarrow> image \<Rightarrow> image" where
  "place_indexed_tile width height it result =
     (case it of (i, (tile_x, tile_y, tile_img)) \<Rightarrow>
        let cols = width div tile_size + 1;
            x = (i mod cols) * tile_size;
            y = (i div cols) * tile_size
        in if x < width \<and> y < height then paste result tile_img (int x, int y) else result)"

definition stitch_tiles :: "(int \<times> int \<times> image) list \<Rightarrow> nat \<Rightarrow> nat \<Rightarrow> image" where
  "stitch_tiles tile_images width height =
     fold (place_indexed_tile width height) (enumerate 0 tile_images)
          (image_new width height (0, 0, 50))"

subsection \<open>Concrete tiles\<close>

definition red :: pixel where "red = (255, 0, 0)"
definition blue :: pixel where "blue = (0, 0, 255)"

definition sample_decode :: "string \<Rightarrow> image option" where
  "sample_decode d =
     (if d = ''red'' then Some (image_new 256 256 red)
      else if d = ''blue'' then Some (image_new 256 256 blue)
      else None)"

definition wide_decode :: "string \<Rightarrow> image option" where
  "wide_decode d =
     (if d = ''red'' then Some (image_new 512 512 red)
      else if d = ''blue'' then Some (image_new 512 512 blue)
      else None)"

definition no_overlay :: "image \<Rightarrow> string \<Rightarrow> nat \<Rightarrow> nat \<Rightarrow> image" where
  "no_overlay im date zoom_level tiles_placed = im"

chapter \<open>Properties\<close>

section \<open>Full-coverage planner: size, distinctness, range\<close>

lemma length_py_range: "length (py_range a b) = nat (b - a)"
  by (simp add: py_range_def)

lemma set_py_range: "set (py_range a b) = {i. a \<le> i \<and> i < b}"
  by (auto simp: py_range_def)

lemma distinct_py_range: "distinct (py_range a b)"
  by (simp add: py_range_def)

lemma length_concat_const:
  "(\<And>x. x \<in> set xs \<Longrightarrow> length (f x) = k) \<Longrightarrow> length (concat (map f xs)) = length xs * k"
  by (induction xs) auto

lemma distinct_grid:
  assumes "distinct xs" and "distinct ys"
    and inj: "\<And>x y x' y'. g x y = g x' y' \<Longrightarrow> x = x' \<and> y = y'"
  shows "distinct (concat (map (\<lambda>x. map (\<lambda>y. g x y) ys) xs))"
  using assms(1)
proof (induction xs)
  case Nil
  then show ?case by simp
next
  case (Cons x xs)
  have "distinct (map (\<lambda>y. g x y) ys)"
    using assms(2) inj by (auto simp: distinct_map inj_on_def)
  moreover have "set (map (\<lambda>y. g x y) ys) \<inter> set (concat (map (\<lambda>x. map (\<lambda>y. g x y) ys) xs)) = {}"
    using Cons.prems inj by fastforce
  ultimately show ?case
    using Cons by simp
qed

text \<open>
  C8. For every zoom level \<open>z \<ge> 0\<close> the full-coverage planner \<open>calculate_world_tiles\<close> returns
  exactly \<open>(2^z)^2\<close> coordinates, pairwise distinct, each \<open>(z, x, y)\<close> with \<open>0 \<le> x < 2^z\<close> and
  \<open>0 \<le> y < 2^z\<close>. The cells that \<open>download_global_coverage\<close> visits, those of the region grid
  \<open>0 .. 2^z - 1\<close> in both axes, have the same three properties.
\<close>

theorem calculate_world_tiles_complete:
  assumes "0 \<le> z"
  shows "(\<exists>tiles. calculate_world_tiles z = Inr tiles
           \<and> length tiles = (2 ^ nat z) ^ 2
           \<and> distinct tiles
           \<and> (\<forall>(z', x, y) \<in> set tiles. z' = z \<and> 0 \<le> x \<and> x < 2 ^ nat z \<and> 0 \<le> y \<and> y < 2 ^ nat z))
         \<and> download_global_coverage e layer_key date z output_dir w
             = download_region_grid e layer_key date z 0 (2 ^ nat z - 1) 0 (2 ^ nat z - 1) output_dir w
         \<and> length (region_cells 0 (2 ^ nat z - 1) 0 (2 ^ nat z - 1)) = (2 ^ nat z) ^ 2
         \<and> distinct (region_cells 0 (2 ^ nat z - 1) 0 (2 ^ nat z - 1))
         \<and> (\<forall>(x, y) \<in> set (region_cells 0 (2 ^ nat z - 1) 0 (2 ^ nat z - 1)).
               0 \<le> x \<and> x < 2 ^ nat z \<and> 0 \<le> y \<and> y < 2 ^ nat z)"
proof -
  let ?m = "(2::int) ^ nat z"
  let ?tiles = "concat (map (\<lambda>x. map (\<lambda>y. (z, x, y)) (py_range 0 ?m)) (py_range 0 ?m))"
  let ?cells = "region_cells 0 (?m - 1) 0 (?m - 1)"
  have eq: "calculate_world_tiles z = Inr ?tiles"
    using assms by (simp add: calculate_world_tiles_def Let_def)
  have len: "length ?tiles = (2 ^ nat z) ^ 2"
  proof -
    have "length ?tiles = length (py_range 0 ?m) * nat ?m"
      by (rule length_concat_const) (simp add: length_py_range)
    then show ?thesis
      by (simp add: length_py_range power2_eq_square nat_power_eq)
  qed
  have dist: "distinct ?tiles"
    by (rule distinct_grid) (simp_all add: distinct_py_range)
  have rng: "\<forall>(z', x, y) \<in> set ?tiles. z' = z \<and> 0 \<le> x \<and> x < ?m \<and> 0 \<le> y \<and> y < ?m"
    by (auto simp: set_py_range)
  have first: "\<exists>tiles. calculate_world_tiles z = Inr tiles
           \<and> length tiles = (2 ^ nat z) ^ 2
           \<and> distinct tiles
           \<and> (\<forall>(z', x, y) \<in> set tiles. z' = z \<and> 0 \<le> x \<and> x < ?m \<and> 0 \<le> y \<and> y < ?m)"
    using eq len dist rng by blast
  have glob: "download_global_coverage e layer_key date z output_dir w
             = download_region_grid e layer_key date z 0 (?m - 1) 0 (?m - 1) output_dir w"
    using assms by (simp add: download_global_coverage_def Let_def)
  have cells: "?cells = concat (map (\<lambda>x. map (\<lambda>y. (x, y)) (py_range 0 ?m)) (py_range 0 ?m))"
    by (simp add: region_cells_def)
  have clen: "length ?cells = (2 ^ nat z) ^ 2"
  proof -
    have "length ?cells = length (py_range 0 ?m) * nat ?m"
      unfolding cells by (rule length_concat_const) (simp add: length_py_range)
    then show ?thesis
      by (simp add: length_py_range power2_eq_square nat_power_eq)
  qed
  have cdist: "distinct ?cells"
    unfolding cells by (rule distinct_grid) (simp_all add: distinct_py_range)
  have crng: "\<forall>(x, y) \<in> set ?cells. 0 \<le> x \<and> x < ?m \<and> 0 \<le> y \<and> y < ?m"
    unfolding cells by (auto simp: set_py_range)
  from first glob clen cdist crng show ?thesis by blast
qed

theorem calculate_world_tiles_complete_witness:
  "(0::int) \<le> 1
   \<and> calculate_world_tiles 1 = Inr [(1, 0, 0), (1, 0, 1), (1, 1, 0), (1, 1, 1)]
   \<and> region_cells 0 (2 ^ nat 1 - 1) 0 (2 ^ nat 1 - 1) = [(0, 0), (0, 1), (1, 0), (1, 1)]
   \<and> length (region_cells 0 (2 ^ nat 1 - 1) 0 (2 ^ nat 1 - 1)) = (2 ^ nat 1) ^ 2
   \<and> (\<exists>tiles. calculate_world_tiles 1 = Inr tiles \<and> length tiles = (2 ^ nat 1) ^ 2 \<and> distinct tiles)"
proof -
  have h: "(0::int) \<le> 1" by simp
  have v: "calculate_world_tiles 1 = Inr [(1, 0, 0), (1, 0, 1), (1, 1, 0), (1, 1, 1)]"
    by (simp add: calculate_world_tiles_def py_range_def upto.simps)
  have c: "region_cells 0 (2 ^ nat 1 - 1) 0 (2 ^ nat 1 - 1) = [(0, 0), (0, 1), (1, 0), (1, 1)]"
    by (simp add: region_cells_def py_range_def upto.simps)
  from calculate_world_tiles_complete [OF h]
  have "length (region_cells 0 (2 ^ nat 1 - 1) 0 (2 ^ nat 1 - 1)) = (2 ^ nat 1) ^ 2"
    and "\<exists>tiles. calculate_world_tiles 1 = Inr tiles \<and> length tiles = (2 ^ nat 1) ^ 2 \<and> distinct tiles"
    by blast+
  with h v c show ?thesis by blast
qed

section \<open>Evaluating the concrete fetcher worlds\<close>

lemma tile_filename_1_0_0: "tile_filename 1 0 0 = ''tile_1_0_0.jpg''"
  by (simp add: tile_filename_def str_int_def digit_char_def)

lemma path_join_out: "path_join ''out'' ''tile_1_0_0.jpg'' = ''out/tile_1_0_0.jpg''"
  by (simp add: path_join_def)

section \<open>Region grid download: every tile is counted once\<close>

lemma download_single_tile_known:
  assumes "map_of layers layer_key = Some li"
  shows "\<exists>ok w'. download_single_tile e layer_key date z x y p w = (Inr ok, w')"
  using assms
  by (auto simp: download_single_tile_def split: prod.splits http_outcome.splits option.splits)

lemma region_loop_counts:
  assumes "map_of layers layer_key = Some li"
  shows "\<exists>s' f' w'. region_loop e layer_key date zoom out fmt cells (s, f) w = (Inr (s', f'), w')
           \<and> s' + f' = s + f + length cells"
proof (induction cells arbitrary: s f w)
  case Nil
  then show ?case by simp
next
  case (Cons c cells)
  obtain x y where c: "c = (x, y)" by (cases c)
  let ?p = "path_join out (region_tile_filename layer_key date zoom x y fmt)"
  obtain ok w1 where d: "download_single_tile e layer_key date zoom x y ?p w = (Inr ok, w1)"
    using download_single_tile_known [OF assms] by blast
  show ?case
  proof (cases ok)
    case True
    from Cons.IH [of "s + 1" f w1] obtain s' f' w' where
      "region_loop e layer_key date zoom out fmt cells (s + 1, f) w1 = (Inr (s', f'), w')"
      "s' + f' = s + 1 + f + length cells" by blast
    with c d True show ?thesis by simp
  next
    case False
    from Cons.IH [of s "f + 1" w1] obtain s' f' w' where
      "region_loop e layer_key date zoom out fmt cells (s, f + 1) w1 = (Inr (s', f'), w')"
      "s' + f' = s + (f + 1) + length cells" by blast
    with c d False show ?thesis by simp
  qed
qed

lemma length_region_cells:
  "length (region_cells x_min x_max y_min y_max) = nat (x_max - x_min + 1) * nat (y_max - y_min + 1)"
proof -
  have "length (region_cells x_min x_max y_min y_max)
          = length (py_range x_min (x_max + 1)) * nat (y_max - y_min + 1)"
    unfolding region_cells_def
    by (rule length_concat_const) (simp add: length_py_range)
  moreover have "x_max + 1 - x_min = x_max - x_min + 1"
    by simp
  ultimately show ?thesis by (simp only: length_py_range)
qed

text \<open>
  C9. For a known layer, an output directory that is not a regular file, and index ranges
  with \<open>x_min \<le> x_max\<close> and \<open>y_min \<le> y_max\<close>, \<open>download_region_grid\<close> returns a pair
  \<open>(successful, failed)\<close> with \<open>successful + failed = (x_max - x_min + 1) * (y_max - y_min + 1)\<close>.
\<close>

theorem download_region_grid_counts_every_tile:
  assumes "map_of layers layer_key = Some li"
    and "\<not> path_exists w output_dir"
    and "x_min \<le> x_max" and "y_min \<le> y_max"
  shows "\<exists>successful failed w'.
           download_region_grid e layer_key date zoom_level x_min x_max y_min y_max output_dir w
             = (Inr (successful, failed), w')
           \<and> int successful + int failed = (x_max - x_min + 1) * (y_max - y_min + 1)"
proof -
  obtain s f w' where
    r: "region_loop e layer_key date zoom_level output_dir (format li)
          (region_cells x_min x_max y_min y_max) (0, 0) w = (Inr (s, f), w')"
    and n: "s + f = 0 + 0 + length (region_cells x_min x_max y_min y_max)"
    using region_loop_counts [OF assms(1)] by blast
  have "download_region_grid e layer_key date zoom_level x_min x_max y_min y_max output_dir w
          = (Inr (s, f), w')"
    using assms(1,2) r by (simp add: download_region_grid_def makedirs_def)
  moreover have "int s + int f = (x_max - x_min + 1) * (y_max - y_min + 1)"
  proof -
    have "int (s + f) = int (nat (x_max - x_min + 1) * nat (y_max - y_min + 1))"
      using n by (simp add: length_region_cells)
    also have "\<dots> = (x_max - x_min + 1) * (y_max - y_min + 1)"
      using assms(3,4) by simp
    finally show ?thesis by simp
  qed
  ultimately show ?thesis by blast
qed

theorem download_region_grid_counts_every_tile_witness:
  "map_of layers ''terra_true_color''
     = Some \<lparr>layer_id = ''MODIS_Terra_CorrectedReflectance_TrueColor'', resolution = ''250m'', format = ''jpg''\<rparr>
   \<and> \<not> path_exists world_empty ''out'' \<and> (0::int) \<le> 1 \<and> (0::int) \<le> 0
   \<and> (\<exists>successful failed w'.
         download_region_grid env_alternating ''terra_true_color'' ''2024-01-01'' 1 0 1 0 0 ''out'' world_empty
           = (Inr (successful, failed), w')
         \<and> int successful + int failed = (1 - 0 + 1) * (0 - 0 + 1))
   \<and> fst (download_region_grid env_alternating ''terra_true_color'' ''2024-01-01'' 1 0 1 0 0 ''out'' world_empty)
       = Inr (1, 1)"
proof -
  have h1: "map_of layers ''terra_true_color''
     = Some \<lparr>layer_id = ''MODIS_Terra_CorrectedReflectance_TrueColor'', resolution = ''250m'', format = ''jpg''\<rparr>"
    by (simp add: layers_def)
  have h2: "\<not> path_exists world_empty ''out''"
    by (simp add: path_exists_def world_empty_def)
  have h3: "(0::int) \<le> 1" and h4: "(0::int) \<le> 0"
    by simp_all
  have v: "fst (download_region_grid env_alternating ''terra_true_color'' ''2024-01-01'' 1 0 1 0 0 ''out'' world_empty)
             = Inr (1, 1)"
    by (simp add: download_region_grid_def makedirs_def path_exists_def world_empty_def
          env_alternating_def layers_def region_cells_def py_range_def upto.simps
          download_single_tile_def requests_get_def write_file_def)
  show ?thesis
    using h1 h2 v
      download_region_grid_counts_every_tile [OF h1 h2 h3 h4, of env_alternating "''2024-01-01''" 1]
    by simp
qed

section \<open>The skip rule of the fetchers\<close>

text \<open>
  C6, as the claim states it, fails for \<open>download_single_tile\<close>: with the tile file already at
  the output path, the direct downloader still requests the tile, and returns \<open>False\<close> when
  the server answers 404.
\<close>

theorem download_single_tile_ignores_existing:
  "path_exists world_cached ''out/tile_1_0_0.jpg''
   \<and> fst (download_single_tile env_404 ''terra_true_color'' ''2024-01-01'' 1 0 0
            ''out/tile_1_0_0.jpg'' world_cached) = Inr False
   \<and> requests (snd (download_single_tile env_404 ''terra_true_color'' ''2024-01-01'' 1 0 0
                      ''out/tile_1_0_0.jpg'' world_cached))
       = [''https://gibs.earthdata.nasa.gov/wmts/epsg4326/best/MODIS_Terra_CorrectedReflectance_TrueColor/default/2024-01-01/250m/1/0/0.jpg'']"
  by (simp add: path_exists_def world_cached_def download_single_tile_def layers_def env_404_def
        requests_get_def gibs_tile_url_def base_url_def str_int_def digit_char_def)

text \<open>
  C6, amended. \<open>download_tile\<close> of the world-map generator, called for a tile whose file
  \<open>tile_{z}_{x}_{y}.jpg\<close> exists in the output directory, returns \<open>(tile_path, True)\<close> and
  leaves the world as it was, request log included: no network call. \<open>download_single_tile\<close>
  of the direct downloader has no skip rule: for a known layer it always sends the request.
\<close>

theorem download_tile_skips_existing:
  "(path_exists w (path_join output_dir (tile_filename z x y)) \<longrightarrow>
      download_tile e date z x y output_dir layer w
        = ((Some (path_join output_dir (tile_filename z x y)), True), w))
   \<and> (map_of layers layer_key = Some li \<longrightarrow>
        requests (snd (download_single_tile e layer_key date z x y output_path w))
          = requests w @ [gibs_tile_url li date z x y])"
  by (auto simp: download_tile_def download_single_tile_def requests_get_def write_file_def
        split: http_outcome.splits option.splits)

theorem download_tile_skips_existing_witness:
  "path_exists world_cached (path_join ''out'' (tile_filename 1 0 0))
   \<and> download_tile env_404 ''2024-01-01'' 1 0 0 ''out'' None world_cached
       = ((Some ''out/tile_1_0_0.jpg'', True), world_cached)
   \<and> map_of layers ''terra_true_color''
       = Some \<lparr>layer_id = ''MODIS_Terra_CorrectedReflectance_TrueColor'', resolution = ''250m'', format = ''jpg''\<rparr>
   \<and> requests (snd (download_single_tile env_404 ''terra_true_color'' ''2024-01-01'' 1 0 0 ''out/t.jpg'' world_cached))
       = [''https://gibs.earthdata.nasa.gov/wmts/epsg4326/best/MODIS_Terra_CorrectedReflectance_TrueColor/default/2024-01-01/250m/1/0/0.jpg'']"
proof -
  have h: "path_exists world_cached (path_join ''out'' (tile_filename 1 0 0))"
    by (simp add: path_exists_def world_cached_def tile_filename_1_0_0 path_join_out)
  have k: "map_of layers ''terra_true_color''
       = Some \<lparr>layer_id = ''MODIS_Terra_CorrectedReflectance_TrueColor'', resolution = ''250m'', format = ''jpg''\<rparr>"
    by (simp add: layers_def)
  have r: "requests world_cached = []"
    by (simp add: world_cached_def)
  show ?thesis
    using h k r
      download_tile_skips_existing [of world_cached "''out''" 1 0 0 env_404 "''2024-01-01''" None
        "''terra_true_color''"
        "\<lparr>layer_id = ''MODIS_Terra_CorrectedReflectance_TrueColor'', resolution = ''250m'', format = ''jpg''\<rparr>"
        "''out/t.jpg''"]
    by (simp add: tile_filename_1_0_0 path_join_out gibs_tile_url_def base_url_def str_int_def digit_char_def)
qed

section \<open>The bounding-box planners: how many tiles\<close>

lemma length_grid:
  "length (concat (map (\<lambda>x. map (\<lambda>y. (x, y)) (py_range c d)) (py_range a b)))
     = nat (b - a) * nat (d - c)"
proof -
  have "length (concat (map (\<lambda>x. map (\<lambda>y. (x, y)) (py_range c d)) (py_range a b)))
     = length (py_range a b) * nat (d - c)"
    by (rule length_concat_const) (simp add: length_py_range)
  then show ?thesis by (simp add: length_py_range)
qed

text \<open>
  C7, as the claim states it, fails for the exporter's planner: for the whole-globe box at
  zoom level 3 (what \<open>calculate_optimal_zoom\<close> picks for a 3840 x 2160 export of the globe)
  \<open>get_tiles_for_bbox\<close> returns 64 coordinates.
\<close>

theorem get_tiles_for_bbox_uncapped:
  "length (get_tiles_for_bbox (-180, -90, 180, 90) 3) = 64"
  by (simp add: get_tiles_for_bbox_def Let_def length_grid py_trunc_def)

text \<open>
  C7, amended. The ingest worker's planner \<open>_get_tile_coordinates\<close> returns at most 25
  coordinates for every bounding box and zoom level. The exporter's planner
  \<open>get_tiles_for_bbox\<close> has no cap of its own: its result is bounded by the size of the grid,
  \<open>(2^z)^2\<close>, only.
\<close>

theorem get_tile_coordinates_capped:
  "length (get_tile_coordinates deg2num bb zoom) \<le> 25
   \<and> length (get_tiles_for_bbox bx zoom_level) \<le> (2 ^ zoom_level) ^ 2"
proof
  show "length (get_tile_coordinates deg2num bb zoom) \<le> 25"
    by (simp add: get_tile_coordinates_def Let_def split: prod.splits)
next
  obtain b0 b1 b2 b3 where bx: "bx = (b0, b1, b2, b3)"
    by (cases bx) auto
  let ?m = "(2::int) ^ zoom_level"
  define x_min where "x_min = max 0 (py_trunc ((b0 + 180) / 360 * of_int ?m))"
  define x_max where "x_max = min (?m - 1) (py_trunc ((b2 + 180) / 360 * of_int ?m))"
  define y_min where "y_min = max 0 (py_trunc ((90 - b3) / 180 * of_int ?m))"
  define y_max where "y_max = min (?m - 1) (py_trunc ((90 - b1) / 180 * of_int ?m))"
  have len: "length (get_tiles_for_bbox bx zoom_level)
               = nat (x_max + 1 - x_min) * nat (y_max + 1 - y_min)"
    by (simp add: bx get_tiles_for_bbox_def Let_def length_grid x_min_def x_max_def y_min_def y_max_def)
  have "nat (x_max + 1 - x_min) \<le> nat ?m"
    unfolding x_min_def x_max_def by simp
  moreover have "nat (y_max + 1 - y_min) \<le> nat ?m"
    unfolding y_min_def y_max_def by simp
  ultimately have "nat (x_max + 1 - x_min) * nat (y_max + 1 - y_min) \<le> nat ?m * nat ?m"
    by (rule mult_le_mono)
  then show "length (get_tiles_for_bbox bx zoom_level) \<le> (2 ^ zoom_level) ^ 2"
    by (simp add: len power2_eq_square nat_power_eq)
qed

section \<open>batch-world-map-generator.py: properties\<close>

lemma sample_dates:
  "find_downloaded_dates sample_strptime (Some (Dir [''terra_2023-01-01_tile.jpg''] []))
     = [''2023-01-01'']"
  by (simp add: find_downloaded_dates_def scan_files_def scan_parts_def endswith_def
        sample_strptime_def)

lemma sample_expected_path:
  "expected_path sample_args ''2023-01-01'' = ''maps/terra_complete_world_map_2023-01-01_z2.jpg''"
  by (simp add: expected_path_def sample_args_def path_join_def str_int_def digit_char_def)

subsection \<open>The date scan\<close>

lemma scan_parts_finite: "finite dates \<Longrightarrow> finite (scan_parts ok parts dates)"
  unfolding scan_parts_def by (induction parts arbitrary: dates) auto

lemma scan_parts_subset:
  "scan_parts ok parts dates \<subseteq> dates \<union> {p. length p = 10 \<and> ok p}"
  unfolding scan_parts_def
proof (induction parts arbitrary: dates)
  case Nil
  then show ?case by simp
next
  case (Cons p parts)
  show ?case
    using Cons [of dates] Cons [of "insert p dates"] by auto
qed

lemma scan_files_finite: "finite dates \<Longrightarrow> finite (scan_files ok fs dates)"
  unfolding scan_files_def by (induction fs arbitrary: dates) (auto simp: scan_parts_finite)

lemma scan_files_subset:
  "scan_files ok fs dates \<subseteq> dates \<union> {p. length p = 10 \<and> ok p}"
  unfolding scan_files_def
proof (induction fs arbitrary: dates)
  case Nil
  then show ?case by simp
next
  case (Cons f fs)
  show ?case
    using Cons [of dates] Cons [of "scan_parts ok (split_on (CHR ''_'') f) dates"]
      scan_parts_subset [of ok "split_on (CHR ''_'') f" dates]
    by auto
qed

text \<open>
  C10. The list \<open>find_downloaded_dates\<close> returns is sorted in ascending order, has no
  duplicates, and holds only strings of 10 characters that \<open>strptime\<close> accepts as a
  \<open>%Y-%m-%d\<close> date; it is empty when the downloads directory does not exist.
\<close>

theorem find_downloaded_dates_sorted_distinct_valid:
  "sorted (find_downloaded_dates ok tree)
   \<and> distinct (find_downloaded_dates ok tree)
   \<and> (\<forall>d \<in> set (find_downloaded_dates ok tree). length d = 10 \<and> ok d)
   \<and> find_downloaded_dates ok None = []"
proof (cases tree)
  case None
  then show ?thesis by (simp add: find_downloaded_dates_def)
next
  case (Some t)
  let ?S = "scan_files ok (walk_files t) {}"
  have fin: "finite ?S"
    by (rule scan_files_finite) simp
  have sub: "?S \<subseteq> {p. length p = 10 \<and> ok p}"
    using scan_files_subset [of ok "walk_files t" "{}"] by simp
  have "set (sorted_list_of_set ?S) = ?S"
    using fin by simp
  with sub have "\<forall>d \<in> set (sorted_list_of_set ?S). length d = 10 \<and> ok d"
    by blast
  then show ?thesis
    using Some by (simp add: find_downloaded_dates_def)
qed

theorem find_downloaded_dates_sorted_distinct_valid_witness:
  "find_downloaded_dates sample_strptime (Some sample_tree) = [''2023-01-01'', ''2023-01-02'']
   \<and> sorted (find_downloaded_dates sample_strptime (Some sample_tree))
   \<and> distinct (find_downloaded_dates sample_strptime (Some sample_tree))
   \<and> length ''2023-01-01'' = 10 \<and> sample_strptime ''2023-01-01''
   \<and> length ''2023-01-02'' = 10 \<and> sample_strptime ''2023-01-02''"
proof -
  have v: "find_downloaded_dates sample_strptime (Some sample_tree) = [''2023-01-01'', ''2023-01-02'']"
    by code_simp
  show ?thesis
    using v find_downloaded_dates_sorted_distinct_valid [of sample_strptime "Some sample_tree"]
    by simp
qed

subsection \<open>A date whose world map exists\<close>

text \<open>
  C1, as the claim states it, fails: the script has no skipped counter, and a date whose
  world map exists is counted as successful. A run over one such date reports 1 successful
  map, 0 failed, a success rate of 100, and starts no subprocess.
\<close>

theorem main_counts_existing_as_successful:
  "expected_path sample_args ''2023-01-01'' \<in> existing sample_world
   \<and> fst (main sample_env sample_args sample_world)
       = Inr (0, Some \<lparr>successful_maps = 1, failed_maps = 0, rate = 100\<rparr>)
   \<and> runs (snd (main sample_env sample_args sample_world)) = []"
proof -
  have a: "arg_downloads sample_args = ''downloads''" "arg_start_date sample_args = None"
    "arg_end_date sample_args = None" "arg_limit sample_args = None"
    by (simp_all add: sample_args_def)
  have t: "tree_at sample_world ''downloads'' = Some (Dir [''terra_2023-01-01_tile.jpg''] [])"
    by (simp add: sample_world_def)
  have s: "strptime sample_env = sample_strptime"
    "makedirs_error sample_env ''maps'' sample_world = None"
    "arg_output sample_args = ''maps''"
    by (simp_all add: sample_env_def sample_args_def)
  have x: "expected_path sample_args ''2023-01-01'' \<in> existing sample_world"
    by (simp add: sample_expected_path sample_world_def)
  have r: "runs sample_world = []"
    by (simp add: sample_world_def)
  show ?thesis
    using x r
    by (simp add: main_def a t s sample_dates dates_to_process_def process_date_def success_rate_def)
qed

text \<open>
  C1, amended. When the loop of the batch run reaches a date whose expected world map
  \<open>terra_complete_world_map_{date}_z{zoom}.jpg\<close> exists in the output directory, it adds one
  to the successful counter (the script has no skipped counter), leaves the failed counter
  as it is, and leaves the world as it is: no subprocess is started for that date.
\<close>

theorem process_date_existing_is_successful:
  assumes "expected_path a date \<in> existing w"
  shows "process_date e a date (successful, failed, w) = (successful + 1, failed, w)"
  using assms by (simp add: process_date_def)

theorem process_date_existing_is_successful_witness:
  "expected_path sample_args ''2023-01-01'' \<in> existing sample_world
   \<and> process_date sample_env sample_args ''2023-01-01'' (0, 0, sample_world) = (1, 0, sample_world)"
proof -
  have x: "expected_path sample_args ''2023-01-01'' \<in> existing sample_world"
    by (simp add: sample_expected_path sample_world_def)
  show ?thesis
    using x process_date_existing_is_successful [OF x, of sample_env 0 0] by simp
qed

subsection \<open>The success rate of an empty run\<close>

text \<open>
  C2. The claim is what the specification asks for; the script does not do it. With one
  downloaded date, 2023-01-01, and \<open>--start-date 2024-01-01\<close>, no date is left to process,
  and printing the success rate divides by zero: \<open>main\<close> raises \<open>ZeroDivisionError\<close>.
\<close>

theorem main_empty_range_raises:
  "dates_to_process (sample_args\<lparr>arg_start_date := Some ''2024-01-01''\<rparr>) [''2023-01-01''] = []
   \<and> success_rate 0 0 = Inl ZeroDivisionError
   \<and> fst (main sample_env (sample_args\<lparr>arg_start_date := Some ''2024-01-01''\<rparr>) sample_world)
       = Inl ZeroDivisionError"
proof -
  have a: "arg_downloads sample_args = ''downloads''" "arg_end_date sample_args = None"
    "arg_limit sample_args = None"
    by (simp_all add: sample_args_def)
  have t: "tree_at sample_world ''downloads'' = Some (Dir [''terra_2023-01-01_tile.jpg''] [])"
    by (simp add: sample_world_def)
  have s: "strptime sample_env = sample_strptime"
    "makedirs_error sample_env ''maps'' sample_world = None"
    "arg_output sample_args = ''maps''"
    by (simp_all add: sample_env_def sample_args_def)
  show ?thesis
    by (simp add: main_def a t s sample_dates dates_to_process_def success_rate_def)
qed

section \<open>animation-video-generator.py: properties\<close>

lemma frames_world_exists: "os_path_exists frames_world ''frames''"
  by (simp add: os_path_exists_def frames_world_def)

lemma frames_world_fields:
  "enc_dirs frames_world ''frames'' = Some [''frame_001_2023-01-01.jpg'', ''frame_002_2023-01-02.jpg'']"
  "enc_trace frames_world = []"
  "enc_files frames_world = {''frames/frame_001_2023-01-01.jpg'', ''frames/frame_002_2023-01-02.jpg''}"
  by (simp_all add: frames_world_def)

lemma frames_world_frames:
  "frame_files_of [''frame_001_2023-01-01.jpg'', ''frame_002_2023-01-02.jpg''] \<noteq> []"
  by (simp add: frame_files_of_def endswith_def)

subsection \<open>The palette of the GIF pipeline\<close>

text \<open>
  C4. The claim is what the script sets out to do (its comment reads "Clean up palette
  file"), but the removal stands after the second ffmpeg run, inside the \<open>try\<close> block. When
  the first run writes the palette and the second run fails, the function returns \<open>False\<close>
  and \<open>palette.png\<close>, which was not there before, is left behind.
\<close>

theorem gif_palette_left_behind:
  "''palette.png'' \<notin> enc_files frames_world
   \<and> fst (create_gif_from_frames env_second_pass_fails ''frames'' ''out.gif'' ''2.0'' ''800'' frames_world)
       = Inr (ReturnFalse FfmpegError)
   \<and> ''palette.png'' \<in> enc_files (snd (create_gif_from_frames env_second_pass_fails ''frames''
                                             ''out.gif'' ''2.0'' ''800'' frames_world))"
  by (simp add: create_gif_from_frames_def frames_world_exists frames_world_fields
        frames_world_frames os_listdir_def subprocess_check_def env_second_pass_fails_def
        palette_cmd_def gif_cmd_def)

subsection \<open>A missing encoder\<close>

text \<open>
  C5, as the claim states it, fails in three ways. With no ffmpeg and no frames directory,
  the MP4 path fails with the directory message, not the missing-tool one: the directory
  check comes first. With an ffmpeg that is present but cannot be started, the probe of
  the MP4 path raises \<open>PermissionError\<close>, which its \<open>except\<close> clause does not catch: the
  function ends in that exception, not in the missing-tool message. With no ffmpeg and a
  directory of frames, the GIF path, which never probes for ffmpeg, lists the frames and
  then lets the \<open>FileNotFoundError\<close> of its first ffmpeg run escape.
\<close>

theorem missing_encoder_not_reported_first:
  "\<not> ffmpeg_present env_no_ffmpeg
   \<and> fst (create_video_from_frames env_no_ffmpeg ''frames'' ''out.mp4'' ''2.0'' ''high'' bare_world)
       = Inr (ReturnFalse DirectoryMissing)
   \<and> fst (create_gif_from_frames env_no_ffmpeg ''frames'' ''out.gif'' ''2.0'' ''800'' frames_world)
       = Inl FileNotFoundError
   \<and> enc_trace (snd (create_gif_from_frames env_no_ffmpeg ''frames'' ''out.gif'' ''2.0'' ''800'' frames_world))
       = [Listed ''frames'', Ran (palette_cmd ''frames'' ''2.0'' ''800'')]
   \<and> ffmpeg_present env_not_executable \<and> \<not> ffmpeg_executable env_not_executable
   \<and> fst (create_video_from_frames env_not_executable ''frames'' ''out.mp4'' ''2.0'' ''high''
            frames_world)
       = Inl PermissionError"
proof -
  have a: "\<not> ffmpeg_present env_no_ffmpeg"
    by (simp add: env_no_ffmpeg_def)
  have b: "\<not> os_path_exists bare_world ''frames''"
    by (simp add: os_path_exists_def bare_world_def)
  have v: "fst (create_video_from_frames env_no_ffmpeg ''frames'' ''out.mp4'' ''2.0'' ''high'' bare_world)
       = Inr (ReturnFalse DirectoryMissing)"
    using b by (simp add: create_video_from_frames_def)
  have g: "create_gif_from_frames env_no_ffmpeg ''frames'' ''out.gif'' ''2.0'' ''800'' frames_world
       = (Inl FileNotFoundError,
          frames_world\<lparr>enc_trace := [Listed ''frames'', Ran (palette_cmd ''frames'' ''2.0'' ''800'')]\<rparr>)"
    using a
    by (simp add: create_gif_from_frames_def frames_world_exists frames_world_fields
          frames_world_frames os_listdir_def subprocess_check_def)
  have n: "ffmpeg_present env_not_executable" "\<not> ffmpeg_executable env_not_executable"
    by (simp_all add: env_not_executable_def)
  have p: "fst (create_video_from_frames env_not_executable ''frames'' ''out.mp4'' ''2.0'' ''high''
            frames_world)
       = Inl PermissionError"
    using n by (simp add: create_video_from_frames_def frames_world_exists subprocess_check_def)
  show ?thesis
    using a v n p by (simp add: g)
qed

text \<open>
  C5, amended. For every MP4 encode (\<open>create_video_from_frames\<close>), when no ffmpeg is found
  or its version probe exits with a non-zero status, the function returns \<open>False\<close> without
  listing or reading any frame file: with the missing-tool message when the frames
  directory exists, with the directory message when it does not. Whenever the probe does
  not complete, a present ffmpeg that cannot be started included, no frame file is listed
  or read before the function ends: the only thing it does is the version probe.
\<close>

theorem create_video_reports_missing_encoder:
  assumes "fst (subprocess_check e [''ffmpeg'', ''-version''] w) \<noteq> Completed"
  shows "(fst (subprocess_check e [''ffmpeg'', ''-version''] w) \<noteq> LaunchFailed \<longrightarrow>
            fst (create_video_from_frames e frames_dir output_path fps quality w)
              = Inr (ReturnFalse (if os_path_exists w frames_dir then FfmpegNotInstalled
                                  else DirectoryMissing)))
         \<and> enc_trace (snd (create_video_from_frames e frames_dir output_path fps quality w))
             = enc_trace w @ (if os_path_exists w frames_dir then [Ran [''ffmpeg'', ''-version'']]
                              else [])"
  using assms
  by (auto simp: create_video_from_frames_def subprocess_check_def
        split: prod.splits proc_result.splits if_splits)

theorem create_video_reports_missing_encoder_witness:
  "fst (subprocess_check env_no_ffmpeg [''ffmpeg'', ''-version''] frames_world) = ProgramNotFound
   \<and> os_path_exists frames_world ''frames''
   \<and> fst (create_video_from_frames env_no_ffmpeg ''frames'' ''out.mp4'' ''2.0'' ''high'' frames_world)
       = Inr (ReturnFalse FfmpegNotInstalled)
   \<and> enc_trace (snd (create_video_from_frames env_no_ffmpeg ''frames'' ''out.mp4'' ''2.0'' ''high''
                        frames_world))
       = [Ran [''ffmpeg'', ''-version'']]
   \<and> fst (subprocess_check env_not_executable [''ffmpeg'', ''-version''] frames_world) = LaunchFailed
   \<and> enc_trace (snd (create_video_from_frames env_not_executable ''frames'' ''out.mp4'' ''2.0''
                        ''high'' frames_world))
       = [Ran [''ffmpeg'', ''-version'']]"
proof -
  have h: "fst (subprocess_check env_no_ffmpeg [''ffmpeg'', ''-version''] frames_world) = ProgramNotFound"
    by (simp add: subprocess_check_def env_no_ffmpeg_def)
  have h1: "fst (subprocess_check env_no_ffmpeg [''ffmpeg'', ''-version''] frames_world) \<noteq> Completed"
    using h by simp
  have k: "fst (subprocess_check env_not_executable [''ffmpeg'', ''-version''] frames_world) = LaunchFailed"
    by (simp add: subprocess_check_def env_not_executable_def)
  have k1: "fst (subprocess_check env_not_executable [''ffmpeg'', ''-version''] frames_world) \<noteq> Completed"
    using k by simp
  show ?thesis
    using h k frames_world_exists
      create_video_reports_missing_encoder [OF h1, of "''frames''" "''out.mp4''" "''2.0''" "''high''"]
      create_video_reports_missing_encoder [OF k1, of "''frames''" "''out.mp4''" "''2.0''" "''high''"]
    by (simp add: frames_world_fields)
qed

section \<open>The compositors: permuting the tile list\<close>

subsection \<open>Pasting commutes on disjoint rectangles\<close>

lemma paste_fields:
  "img_w (paste im tile pos) = img_w im"
  "img_h (paste im tile pos) = img_h im"
  "length (img_px (paste im tile pos)) = length (img_px im)"
  by (simp_all add: paste_def)

lemma nth_paste:
  assumes "i < length (img_px im)"
  shows "img_px (paste im tile pos) ! i
           = (if covers tile pos (int (i mod img_w im)) (int (i div img_w im))
              then getpixel tile (nat (int (i mod img_w im) - fst pos)) (nat (int (i div img_w im) - snd pos))
              else img_px im ! i)"
  using assms by (simp add: paste_def Let_def)

lemma paste_commute:
  assumes "\<And>c r. \<not> (covers a pa c r \<and> covers b pb c r)"
  shows "paste (paste im a pa) b pb = paste (paste im b pb) a pa"
proof -
  have px: "img_px (paste (paste im a pa) b pb) = img_px (paste (paste im b pb) a pa)"
  proof (rule nth_equalityI)
    show "length (img_px (paste (paste im a pa) b pb)) = length (img_px (paste (paste im b pb) a pa))"
      by (simp add: paste_fields)
  next
    fix i assume "i < length (img_px (paste (paste im a pa) b pb))"
    then have i: "i < length (img_px im)"
      by (simp add: paste_fields)
    show "img_px (paste (paste im a pa) b pb) ! i = img_px (paste (paste im b pb) a pa) ! i"
      using i assms by (simp add: nth_paste paste_fields)
  qed
  have "paste (paste im a pa) b pb = im\<lparr>img_px := img_px (paste (paste im a pa) b pb)\<rparr>"
    by (simp add: paste_def)
  also have "\<dots> = im\<lparr>img_px := img_px (paste (paste im b pb) a pa)\<rparr>"
    by (simp only: px)
  also have "\<dots> = paste (paste im b pb) a pa"
    by (simp add: paste_def)
  finally show ?thesis .
qed

lemma grid_disjoint:
  assumes "(x, y) \<noteq> (x', y')"
    and "img_w a \<le> tile_size" "img_h a \<le> tile_size"
    and "img_w b \<le> tile_size" "img_h b \<le> tile_size"
  shows "\<not> (covers a (x * int tile_size, y * int tile_size) c r
            \<and> covers b (x' * int tile_size, y' * int tile_size) c r)"
proof
  assume h: "covers a (x * int tile_size, y * int tile_size) c r
            \<and> covers b (x' * int tile_size, y' * int tile_size) c r"
  have "x = x'"
    using h assms(2,4) by (simp add: covers_def tile_size_def)
  moreover have "y = y'"
    using h assms(3,5) by (simp add: covers_def tile_size_def)
  ultimately show False using assms(1) by simp
qed

lemma place_world_tile_commute:
  assumes ne: "(x, y) \<noteq> (x', y')"
    and sa: "\<And>img. open_image p = Some img \<Longrightarrow> img_w img \<le> tile_size \<and> img_h img \<le> tile_size"
    and sb: "\<And>img. open_image p' = Some img \<Longrightarrow> img_w img \<le> tile_size \<and> img_h img \<le> tile_size"
  shows "place_world_tile open_image (z, x, y, p) (place_world_tile open_image (z', x', y', p') st)
           = place_world_tile open_image (z', x', y', p') (place_world_tile open_image (z, x, y, p) st)"
proof (cases "open_image p")
  case None
  then show ?thesis by (simp add: place_world_tile_def)
next
  case a: (Some a)
  show ?thesis
  proof (cases "open_image p'")
    case None
    then show ?thesis by (simp add: place_world_tile_def)
  next
    case b: (Some b)
    have "paste (paste (fst st) b (x' * int tile_size, y' * int tile_size)) a (x * int tile_size, y * int tile_size)
            = paste (paste (fst st) a (x * int tile_size, y * int tile_size)) b (x' * int tile_size, y' * int tile_size)"
      by (rule paste_commute) (use ne sa [OF a] sb [OF b] grid_disjoint [of x' y' x y b a] in auto)
    then show ?thesis
      using a b by (simp add: place_world_tile_def)
  qed
qed

lemma fold_place_world_tile_perm:
  assumes perm: "mset tiles' = mset tiles"
    and dist: "distinct (map (\<lambda>(z, x, y, p). (x, y)) tiles)"
    and size: "\<forall>(z, x, y, p) \<in> set tiles. \<forall>img. open_image p = Some img
                 \<longrightarrow> img_w img \<le> tile_size \<and> img_h img \<le> tile_size"
  shows "fold (place_world_tile open_image) tiles' = fold (place_world_tile open_image) tiles"
proof (rule fold_multiset_equiv [symmetric])
  show "mset tiles = mset tiles'"
    using perm by simp
next
  fix s t assume s: "s \<in> set tiles" and t: "t \<in> set tiles"
  obtain z x y p where s_eq: "s = (z, x, y, p)" by (cases s) auto
  obtain z' x' y' p' where t_eq: "t = (z', x', y', p')" by (cases t) auto
  show "place_world_tile open_image s \<circ> place_world_tile open_image t
          = place_world_tile open_image t \<circ> place_world_tile open_image s"
  proof (cases "s = t")
    case True
    then show ?thesis by simp
  next
    case False
    have inj: "inj_on (\<lambda>(z, x, y, p). (x, y)) (set tiles)"
      using dist by (simp add: distinct_map)
    have ne: "(x, y) \<noteq> (x', y')"
      using inj_onD [OF inj _ s t] False by (auto simp: s_eq t_eq)
    have sa: "\<And>img. open_image p = Some img \<Longrightarrow> img_w img \<le> tile_size \<and> img_h img \<le> tile_size"
      using size s by (auto simp: s_eq)
    have sb: "\<And>img. open_image p' = Some img \<Longrightarrow> img_w img \<le> tile_size \<and> img_h img \<le> tile_size"
      using size t by (auto simp: t_eq)
    show ?thesis
      unfolding s_eq t_eq
      by (rule ext) (simp add: place_world_tile_commute [OF ne sa sb])
  qed
qed

lemma place_frame_tile_commute:
  assumes ne: "(x, y) \<noteq> (x', y')"
    and sa: "\<And>img. decode d = Some img \<Longrightarrow> img_w img \<le> tile_size \<and> img_h img \<le> tile_size"
    and sb: "\<And>img. decode d' = Some img \<Longrightarrow> img_w img \<le> tile_size \<and> img_h img \<le> tile_size"
  shows "place_frame_tile decode mx my (x, y, d) (place_frame_tile decode mx my (x', y', d') frame)
           = place_frame_tile decode mx my (x', y', d') (place_frame_tile decode mx my (x, y, d) frame)"
proof (cases "decode d")
  case None
  then show ?thesis by (simp add: place_frame_tile_def)
next
  case a: (Some a)
  show ?thesis
  proof (cases "decode d'")
    case None
    then show ?thesis by (simp add: place_frame_tile_def)
  next
    case b: (Some b)
    have ne': "(x' - mx, y' - my) \<noteq> (x - mx, y - my)"
      using ne by auto
    have "paste (paste frame b ((x' - mx) * int tile_size, (y' - my) * int tile_size)) a
                ((x - mx) * int tile_size, (y - my) * int tile_size)
            = paste (paste frame a ((x - mx) * int tile_size, (y - my) * int tile_size)) b
                ((x' - mx) * int tile_size, (y' - my) * int tile_size)"
      by (rule paste_commute) (use sa [OF a] sb [OF b] grid_disjoint [OF ne', of b a] in auto)
    then show ?thesis
      using a b by (simp add: place_frame_tile_def)
  qed
qed

lemma fold_place_frame_tile_perm:
  assumes perm: "mset tiles' = mset tiles"
    and dist: "distinct (map (\<lambda>(x, y, d). (x, y)) tiles)"
    and size: "\<forall>(x, y, d) \<in> set tiles. \<forall>img. decode d = Some img
                 \<longrightarrow> img_w img \<le> tile_size \<and> img_h img \<le> tile_size"
  shows "fold (place_frame_tile decode mx my) tiles' = fold (place_frame_tile decode mx my) tiles"
proof (rule fold_multiset_equiv [symmetric])
  show "mset tiles = mset tiles'"
    using perm by simp
next
  fix s t assume s: "s \<in> set tiles" and t: "t \<in> set tiles"
  obtain x y d where s_eq: "s = (x, y, d)" by (cases s) auto
  obtain x' y' d' where t_eq: "t = (x', y', d')" by (cases t) auto
  show "place_frame_tile decode mx my s \<circ> place_frame_tile decode mx my t
          = place_frame_tile decode mx my t \<circ> place_frame_tile decode mx my s"
  proof (cases "s = t")
    case True
    then show ?thesis by simp
  next
    case False
    have inj: "inj_on (\<lambda>(x, y, d). (x, y)) (set tiles)"
      using dist by (simp add: distinct_map)
    have ne: "(x, y) \<noteq> (x', y')"
      using inj_onD [OF inj _ s t] False by (auto simp: s_eq t_eq)
    have sa: "\<And>img. decode d = Some img \<Longrightarrow> img_w img \<le> tile_size \<and> img_h img \<le> tile_size"
      using size s by (auto simp: s_eq)
    have sb: "\<And>img. decode d' = Some img \<Longrightarrow> img_w img \<le> tile_size \<and> img_h img \<le> tile_size"
      using size t by (auto simp: t_eq)
    show ?thesis
      unfolding s_eq t_eq
      by (rule ext) (simp add: place_frame_tile_commute [OF ne sa sb])
  qed
qed

text \<open>
  C3, amended. For \<open>stitch_world_map\<close> and \<open>_compose_frame\<close>: when the tiles of the list have
  pairwise distinct \<open>(x, y)\<close> coordinates and every tile image that decodes is at most
  \<open>tile_size\<close> wide and high, composing the list and composing any permutation of it give
  the same canvas, pixel for pixel.
\<close>

theorem compose_permutation_invariant:
  assumes "mset tiles' = mset tiles"
    and "distinct (map (\<lambda>(z, x, y, p). (x, y)) tiles)"
    and "\<forall>(z, x, y, p) \<in> set tiles. \<forall>img. open_image p = Some img
           \<longrightarrow> img_w img \<le> tile_size \<and> img_h img \<le> tile_size"
    and "mset frame_tiles' = mset frame_tiles"
    and "distinct (map (\<lambda>(x, y, d). (x, y)) frame_tiles)"
    and "\<forall>(x, y, d) \<in> set frame_tiles. \<forall>img. decode d = Some img
           \<longrightarrow> img_w img \<le> tile_size \<and> img_h img \<le> tile_size"
  shows "stitch_world_map open_image add_overlay tiles' zoom_level date
           = stitch_world_map open_image add_overlay tiles zoom_level date
         \<and> compose_frame decode frame_tiles' = compose_frame decode frame_tiles"
proof
  have e: "tiles' = [] \<longleftrightarrow> tiles = []"
    using assms(1) by (metis mset_zero_iff)
  show "stitch_world_map open_image add_overlay tiles' zoom_level date
           = stitch_world_map open_image add_overlay tiles zoom_level date"
    by (simp add: stitch_world_map_def e fold_place_world_tile_perm [OF assms(1,2,3)])
next
  have e: "frame_tiles' = [] \<longleftrightarrow> frame_tiles = []"
    using assms(4) by (metis mset_zero_iff)
  have s: "set frame_tiles' = set frame_tiles"
    using assms(4) by (rule mset_eq_setD)
  show "compose_frame decode frame_tiles' = compose_frame decode frame_tiles"
    by (simp add: compose_frame_def e s fold_place_frame_tile_perm [OF assms(4,5,6)])
qed

subsection \<open>Pixels of the concrete compositions\<close>

lemma image_new_fields:
  "img_w (image_new w h c) = w"
  "img_h (image_new w h c) = h"
  "length (img_px (image_new w h c)) = w * h"
  by (simp_all add: image_new_def)

lemma getpixel_image_new:
  "r * w + c < w * h \<Longrightarrow> getpixel (image_new w h colour) c r = colour"
  by (simp add: getpixel_def image_new_def)

lemma stitch_tiles_first_pixel:
  "img_px (stitch_tiles [(0, 0, image_new 256 256 red), (1, 0, image_new 256 256 blue)] 512 256) ! 0 = red"
  "img_px (stitch_tiles [(1, 0, image_new 256 256 blue), (0, 0, image_new 256 256 red)] 512 256) ! 0 = blue"
  by (simp_all add: stitch_tiles_def place_indexed_tile_def tile_size_def nth_paste paste_fields
        image_new_fields covers_def getpixel_image_new)

lemma compose_frame_first_pixel:
  "map_option (\<lambda>im. img_px im ! 0) (compose_frame sample_decode [(0, 0, ''red''), (0, 0, ''blue'')]) = Some blue"
  "map_option (\<lambda>im. img_px im ! 0) (compose_frame sample_decode [(0, 0, ''blue''), (0, 0, ''red'')]) = Some red"
  by (simp_all add: compose_frame_def place_frame_tile_def sample_decode_def tile_size_def
        nth_paste paste_fields image_new_fields covers_def getpixel_image_new)

lemma stitch_world_map_overlap_pixel:
  "map_option (\<lambda>im. img_px im ! 256)
     (stitch_world_map wide_decode no_overlay [(1, 0, 0, ''red''), (1, 1, 0, ''blue'')] 1 ''2024-01-01'') = Some blue"
  "map_option (\<lambda>im. img_px im ! 256)
     (stitch_world_map wide_decode no_overlay [(1, 1, 0, ''blue''), (1, 0, 0, ''red'')] 1 ''2024-01-01'') = Some red"
  by (simp_all add: stitch_world_map_def place_world_tile_def wide_decode_def no_overlay_def
        tile_size_def nth_paste paste_fields image_new_fields covers_def getpixel_image_new)

lemma red_blue: "red \<noteq> blue"
  by (simp add: red_def blue_def)

text \<open>
  C3, as the claim states it, fails in three ways. \<open>stitch_tiles\<close> places a tile by its index
  in the list: swapping two tiles swaps their places on the canvas. \<open>_compose_frame\<close> and
  \<open>stitch_world_map\<close> place by coordinate, but a later paste overwrites an earlier one, so
  the order decides between two tiles at one coordinate, and between neighbours whose
  images are larger than \<open>tile_size\<close> and overlap.
\<close>

theorem composition_depends_on_order:
  "stitch_tiles [(0, 0, image_new 256 256 red), (1, 0, image_new 256 256 blue)] 512 256
     \<noteq> stitch_tiles [(1, 0, image_new 256 256 blue), (0, 0, image_new 256 256 red)] 512 256
   \<and> compose_frame sample_decode [(0, 0, ''red''), (0, 0, ''blue'')]
       \<noteq> compose_frame sample_decode [(0, 0, ''blue''), (0, 0, ''red'')]
   \<and> stitch_world_map wide_decode no_overlay [(1, 0, 0, ''red''), (1, 1, 0, ''blue'')] 1 ''2024-01-01''
       \<noteq> stitch_world_map wide_decode no_overlay [(1, 1, 0, ''blue''), (1, 0, 0, ''red'')] 1 ''2024-01-01''"
proof (intro conjI)
  show "stitch_tiles [(0, 0, image_new 256 256 red), (1, 0, image_new 256 256 blue)] 512 256
     \<noteq> stitch_tiles [(1, 0, image_new 256 256 blue), (0, 0, image_new 256 256 red)] 512 256"
    using stitch_tiles_first_pixel red_blue by metis
  show "compose_frame sample_decode [(0, 0, ''red''), (0, 0, ''blue'')]
       \<noteq> compose_frame sample_decode [(0, 0, ''blue''), (0, 0, ''red'')]"
    using compose_frame_first_pixel red_blue by (metis option.inject)
  show "stitch_world_map wide_decode no_overlay [(1, 0, 0, ''red''), (1, 1, 0, ''blue'')] 1 ''2024-01-01''
       \<noteq> stitch_world_map wide_decode no_overlay [(1, 1, 0, ''blue''), (1, 0, 0, ''red'')] 1 ''2024-01-01''"
    using stitch_world_map_overlap_pixel red_blue by (metis option.inject)
qed

theorem compose_permutation_invariant_witness:
  "mset [(1, 1, 0, ''blue''), (1, 0, 0, ''red'')] = mset [(1::int, 0::int, 0::int, ''red''), (1, 1, 0, ''blue'')]
   \<and> distinct (map (\<lambda>(z, x, y, p). (x, y)) [(1::int, 0::int, 0::int, ''red''), (1, 1, 0, ''blue'')])
   \<and> sample_decode ''red'' = Some (image_new 256 256 red)
   \<and> img_w (image_new 256 256 red) \<le> tile_size
   \<and> mset [(1, 0, ''blue''), (0, 0, ''red'')] = mset [(0::int, 0::int, ''red''), (1, 0, ''blue'')]
   \<and> stitch_world_map sample_decode no_overlay [(1, 1, 0, ''blue''), (1, 0, 0, ''red'')] 1 ''2024-01-01''
       = stitch_world_map sample_decode no_overlay [(1, 0, 0, ''red''), (1, 1, 0, ''blue'')] 1 ''2024-01-01''
   \<and> compose_frame sample_decode [(1, 0, ''blue''), (0, 0, ''red'')]
       = compose_frame sample_decode [(0, 0, ''red''), (1, 0, ''blue'')]"
proof -
  let ?ts = "[(1::int, 0::int, 0::int, ''red''), (1, 1, 0, ''blue'')]"
  let ?ts' = "[(1::int, 1::int, 0::int, ''blue''), (1, 0, 0, ''red'')]"
  let ?fs = "[(0::int, 0::int, ''red''), (1, 0, ''blue'')]"
  let ?fs' = "[(1::int, 0::int, ''blue''), (0, 0, ''red'')]"
  have h1: "mset ?ts' = mset ?ts" by simp
  have h2: "distinct (map (\<lambda>(z, x, y, p). (x, y)) ?ts)" by simp
  have h3: "\<forall>(z, x, y, p) \<in> set ?ts. \<forall>img. sample_decode p = Some img
              \<longrightarrow> img_w img \<le> tile_size \<and> img_h img \<le> tile_size"
    by (auto simp: sample_decode_def image_new_fields tile_size_def)
  have h4: "mset ?fs' = mset ?fs" by simp
  have h5: "distinct (map (\<lambda>(x, y, d). (x, y)) ?fs)" by simp
  have h6: "\<forall>(x, y, d) \<in> set ?fs. \<forall>img. sample_decode d = Some img
              \<longrightarrow> img_w img \<le> tile_size \<and> img_h img \<le> tile_size"
    by (auto simp: sample_decode_def image_new_fields tile_size_def)
  have d: "sample_decode ''red'' = Some (image_new 256 256 red)"
    by (simp add: sample_decode_def)
  have w: "img_w (image_new 256 256 red) \<le> tile_size"
    by (simp add: image_new_fields tile_size_def)
  from compose_permutation_invariant [OF h1 h2 h3 h4 h5 h6, of no_overlay 1 "''2024-01-01''"]
  show ?thesis
    using h1 h2 h4 d w by blast
qed

end
